theory Spec2Isabelle
  imports Complex_Main
begin

section \<open>Strings\<close>

text \<open>
  A JavaScript string is a sequence of UTF-16 code units; it is modelled as the list of
  their numbers. \<open>map of_char ''abc''\<close> is the string of an ASCII literal of the source.
\<close>

type_synonym jsstring = "nat list"

abbreviation (input) js :: "string \<Rightarrow> jsstring" where
  "js s \<equiv> map of_char s"

definition isSpace :: "nat \<Rightarrow> bool" where
  \<comment> \<open>the regular expression class \<open>\s\<close>, which is also what \<open>trim\<close> removes:
      WhiteSpace and LineTerminator of ECMA-262\<close>
  "isSpace c =
     (c = 9 \<or> c = 10 \<or> c = 11 \<or> c = 12 \<or> c = 13 \<or> c = 32 \<or> c = 160 \<or> c = 5760
      \<or> (8192 \<le> c \<and> c \<le> 8202) \<or> c = 8232 \<or> c = 8233 \<or> c = 8239 \<or> c = 8287
      \<or> c = 12288 \<or> c = 65279)"

definition toLowerUnit :: "nat \<Rightarrow> nat" where
  \<comment> \<open>\<open>toLowerCase\<close> on one code unit, for ASCII and Latin-1; the case mapping of the
      rest of Unicode is not modelled (those units are left as they are)\<close>
  "toLowerUnit c =
     (if (65 \<le> c \<and> c \<le> 90) \<or> (192 \<le> c \<and> c \<le> 222 \<and> c \<noteq> 215) then c + 32 else c)"

definition toLowerCase :: "jsstring \<Rightarrow> jsstring" where
  "toLowerCase s = map toLowerUnit s"

definition lastSegment :: "jsstring \<Rightarrow> jsstring" where
  \<comment> \<open>\<open>name.split(".").pop()\<close>: the text after the last dot, the whole name without one\<close>
  "lastSegment name = rev (takeWhile (\<lambda>c. c \<noteq> 46) (rev name))"

definition trim :: "jsstring \<Rightarrow> jsstring" where
  "trim s = rev (dropWhile isSpace (rev (dropWhile isSpace s)))"

fun isPrefixOf :: "jsstring \<Rightarrow> jsstring \<Rightarrow> bool" where
  "isPrefixOf [] s = True"
| "isPrefixOf (p # ps) [] = False"
| "isPrefixOf (p # ps) (c # cs) = (p = c \<and> isPrefixOf ps cs)"

fun includesStr :: "jsstring \<Rightarrow> jsstring \<Rightarrow> bool" where
  \<comment> \<open>\<open>s.includes(p)\<close>\<close>
  "includesStr [] p = (p = [])"
| "includesStr (c # cs) p = (isPrefixOf p (c # cs) \<or> includesStr cs p)"

function showNat :: "nat \<Rightarrow> jsstring" where
  \<comment> \<open>a non-negative integer inside a template literal: its decimal digits\<close>
  "showNat n = (if n < 10 then [48 + n] else showNat (n div 10) @ [48 + n mod 10])"
  by pat_completeness auto
termination
  by (relation "measure (\<lambda>n. n)") auto

declare showNat.simps [simp del]

section \<open>Image helpers\<close>

text \<open>
  A browser \<open>File\<close>: its \<open>type\<close> is always a string (empty when the browser does not
  know the type), so \<open>file.type || ""\<close> is the type itself.
\<close>

record upload =
  ftype :: jsstring
  fname :: jsstring
  fbytes :: "nat list"

definition normalizeMime :: "upload \<Rightarrow> jsstring" where
  "normalizeMime f =
     (let t = toLowerCase (ftype f);
          ext = toLowerCase (lastSegment (fname f))
      in if t = js ''application/pdf'' \<or> ext = js ''pdf'' then js ''application/pdf''
         else if t = js ''image/jpeg'' \<or> t = js ''image/jpg'' then js ''image/jpeg''
         else if t = js ''image/png'' then js ''image/png''
         else if t = js ''image/webp'' then js ''image/webp''
         else if t = js ''image/gif'' then js ''image/gif''
         else js ''image/jpeg'')"

record canvas =
  width :: nat
  height :: nat
  pixels :: "nat list"

text \<open>
  JavaScript numbers are doubles. A double is modelled by the rational number it denotes,
  and \<open>toDouble q\<close> is the double nearest to \<open>q\<close>, a tie going to the even significand:
  the result of a division or a multiplication of doubles is \<open>toDouble\<close> of the exact
  result. \<open>exponentOf q\<close> is the integer part of the binary logarithm of a positive
  \<open>q\<close>. Subnormal results and overflow are not modelled; no quotient or product of two
  canvas dimensions, which are below \<open>2^32\<close>, is near either.
\<close>

function bitLength :: "nat \<Rightarrow> nat" where
  "bitLength n = (if n = 0 then 0 else Suc (bitLength (n div 2)))"
  by pat_completeness auto
termination
  by (relation "measure (\<lambda>n. n)") auto

declare bitLength.simps [simp del]

definition exponentOf :: "real \<Rightarrow> int" where
  "exponentOf q =
     (if 1 \<le> q then int (bitLength (nat \<lfloor>q\<rfloor>)) - 1
      else - int (bitLength (nat (\<lceil>1 / q\<rceil> - 1))))"

definition pow2 :: "int \<Rightarrow> real" where
  "pow2 e = (if 0 \<le> e then 2 ^ nat e else 1 / 2 ^ nat (- e))"

definition roundEven :: "real \<Rightarrow> int" where
  "roundEven m =
     (let f = \<lfloor>m\<rfloor>; r = m - of_int f
      in if r < 1 / 2 then f else if 1 / 2 < r then f + 1 else if even f then f else f + 1)"

definition toDouble :: "real \<Rightarrow> real" where
  "toDouble q =
     (if q = 0 then 0
      else let u = pow2 (exponentOf \<bar>q\<bar> - 52) in of_int (roundEven (q / u)) * u)"

text \<open>
  \<open>smartResize\<close> computes the target dimensions and then draws and encodes. Each
  division and multiplication of the source is rounded to a double; \<open>Math.round\<close> is
  \<open>round\<close> (a half rounds up). A portrait canvas of width 0 divides by zero in the source
  (the scale becomes \<open>Infinity\<close>, the products \<open>NaN\<close> and \<open>Infinity\<close>, and both
  dimensions of the new canvas are then 0); the model writes that case out, as it does the
  landscape canvas of width 0, whose scale is \<open>Math.min(Infinity, 1)\<close>. What the browser
  does when it draws and encodes an empty canvas belongs to the encoder below.
\<close>

definition resizeScale :: "nat \<Rightarrow> nat \<Rightarrow> nat \<Rightarrow> nat \<Rightarrow> real" where
  "resizeScale w h maxLong minWidth =
     (if h > w then
        (let scale = min (toDouble (of_nat maxLong / of_nat h)) 1
         in if toDouble (of_nat w * scale) < of_nat minWidth
            then toDouble (of_nat minWidth / of_nat w) else scale)
      else if w = 0 then 1
      else min (toDouble (of_nat maxLong / of_nat w)) 1)"

definition resizeDims :: "nat \<Rightarrow> nat \<Rightarrow> nat \<Rightarrow> nat \<Rightarrow> nat \<times> nat" where
  "resizeDims w h maxLong minWidth =
     (if h > w \<and> w = 0 \<and> 0 < minWidth then (0, 0)
      else let scale = resizeScale w h maxLong minWidth
           in (nat (round (toDouble (of_nat w * scale))),
               nat (round (toDouble (of_nat h * scale)))))"

text \<open>
  The browser's canvas encoder is a parameter: \<open>enc src nw nh q\<close> is the base64 part of
  \<open>toDataURL("image/jpeg", q)\<close> of the canvas \<open>src\<close> drawn at \<open>nw\<close> by \<open>nh\<close> on white.
\<close>

type_synonym encoder = "canvas \<Rightarrow> nat \<Rightarrow> nat \<Rightarrow> rat \<Rightarrow> jsstring"

definition smartResize :: "encoder \<Rightarrow> canvas \<Rightarrow> nat \<Rightarrow> nat \<Rightarrow> rat \<Rightarrow> jsstring" where
  "smartResize enc c maxLong minWidth quality =
     (case resizeDims (width c) (height c) maxLong minWidth of
        (nw, nh) \<Rightarrow> enc c nw nh quality)"

text \<open>
  Thrown values: \<open>Error m\<close> is \<open>new Error(m)\<close>. \<open>SyntaxError t\<close> is what \<open>JSON.parse\<close>
  throws on the text \<open>t\<close>, and \<open>TypeError p\<close> what reading or calling the property
  \<open>p\<close> throws when its object does not allow it; the JavaScript engine chooses the
  message of both.
\<close>

datatype error = Error jsstring | SyntaxError jsstring | TypeError jsstring

record rasterImage =
  base64 :: jsstring
  mediaType :: jsstring

definition overBudget :: "jsstring \<Rightarrow> bool" where
  \<comment> \<open>\<open>b64.length * 0.75 > 700 * 1024\<close>\<close>
  "overBudget b64 = (3 * length b64 > 4 * (700 * 1024))"

definition compressImage ::
  "(upload \<Rightarrow> error + canvas) \<Rightarrow> encoder \<Rightarrow> upload \<Rightarrow> error + rasterImage" where
  \<comment> \<open>\<open>loadImage\<close> is the browser's FileReader and Image decode, drawn on a white canvas of
      the image's own size; it rejects when the file cannot be read or decoded\<close>
  "compressImage loadImage enc f =
     (case loadImage f of
        Inl e \<Rightarrow> Inl e
      | Inr src \<Rightarrow>
          (let b64 = smartResize enc src 2000 900 (82 / 100);
               b64 = (if overBudget b64 then smartResize enc src 2000 900 (65 / 100) else b64);
               b64 = (if overBudget b64 then smartResize enc src 1600 800 (60 / 100) else b64)
           in Inr \<lparr>base64 = b64, mediaType = js ''image/jpeg''\<rparr>))"

definition pdfToImageBase64 ::
  "(upload \<Rightarrow> error + canvas) \<Rightarrow> encoder \<Rightarrow> upload \<Rightarrow> error + rasterImage" where
  \<comment> \<open>\<open>renderPdf\<close> is PDF.js: load the library once, open the document, render page 1 at
      scale 2.0 on a white canvas; any of these steps may reject\<close>
  "pdfToImageBase64 renderPdf enc f =
     (case renderPdf f of
        Inl e \<Rightarrow> Inl e
      | Inr c \<Rightarrow>
          (let b64 = smartResize enc c 2000 900 (85 / 100);
               b64 = (if overBudget b64 then smartResize enc c 2000 900 (70 / 100) else b64);
               b64 = (if overBudget b64 then smartResize enc c 1600 800 (60 / 100) else b64)
           in Inr \<lparr>base64 = b64, mediaType = js ''image/jpeg''\<rparr>))"

section \<open>JSON values and \<open>JSON.parse\<close>\<close>

datatype json =
    JNull
  | JBool bool
  | JNum rat
  | JStr jsstring
  | JArr "json list"
  | JObj "(jsstring \<times> json) list"

datatype token =
    TLBrace | TRBrace | TLBrack | TRBrack | TColon | TComma
  | TString jsstring | TNumber rat | TTrue | TFalse | TNull

definition isJsonSpace :: "nat \<Rightarrow> bool" where
  "isJsonSpace c = (c = 9 \<or> c = 10 \<or> c = 13 \<or> c = 32)"

definition isDigit :: "nat \<Rightarrow> bool" where
  "isDigit c = (48 \<le> c \<and> c \<le> 57)"

definition hexVal :: "nat \<Rightarrow> nat option" where
  "hexVal c =
     (if 48 \<le> c \<and> c \<le> 57 then Some (c - 48)
      else if 97 \<le> c \<and> c \<le> 102 then Some (c - 87)
      else if 65 \<le> c \<and> c \<le> 70 then Some (c - 55)
      else None)"

definition hex4 :: "nat \<Rightarrow> nat \<Rightarrow> nat \<Rightarrow> nat \<Rightarrow> nat option" where
  "hex4 a b c d =
     (case (hexVal a, hexVal b, hexVal c, hexVal d) of
        (Some x, Some y, Some z, Some w) \<Rightarrow> Some (((x * 16 + y) * 16 + z) * 16 + w)
      | _ \<Rightarrow> None)"

definition unescape :: "nat \<Rightarrow> nat option" where
  "unescape e =
     (if e = 34 \<or> e = 92 \<or> e = 47 then Some e
      else if e = 98 then Some 8
      else if e = 102 then Some 12
      else if e = 110 then Some 10
      else if e = 114 then Some 13
      else if e = 116 then Some 9
      else None)"

fun lexString :: "jsstring \<Rightarrow> jsstring \<Rightarrow> (jsstring \<times> jsstring) option" where
  "lexString acc [] = None"
| "lexString acc (c # cs) =
     (if c = 34 then Some (rev acc, cs)
      else if c = 92 then
        (case cs of
           [] \<Rightarrow> None
         | e # r \<Rightarrow>
             if e = 117 then
               (case r of
                  a # b # c' # d # r' \<Rightarrow>
                    (case hex4 a b c' d of None \<Rightarrow> None | Some n \<Rightarrow> lexString (n # acc) r')
                | _ \<Rightarrow> None)
             else (case unescape e of None \<Rightarrow> None | Some x \<Rightarrow> lexString (x # acc) r))
      else if c < 32 then None
      else lexString (c # acc) cs)"

definition digitsVal :: "jsstring \<Rightarrow> nat" where
  "digitsVal ds = foldl (\<lambda>a c. 10 * a + (c - 48)) 0 ds"

definition lexInt :: "jsstring \<Rightarrow> (jsstring \<times> jsstring) option" where
  \<comment> \<open>the integer part: one or more digits, no leading zero before another digit\<close>
  "lexInt s =
     (let ip = takeWhile isDigit s
      in if ip = [] \<or> (hd ip = 48 \<and> length ip > 1) then None
         else Some (ip, dropWhile isDigit s))"

definition lexFrac :: "jsstring \<Rightarrow> (jsstring \<times> jsstring) option" where
  \<comment> \<open>an optional fraction: a dot and one or more digits\<close>
  "lexFrac s =
     (case s of
        [] \<Rightarrow> Some ([], s)
      | c # cs \<Rightarrow>
          if c = 46 then
            (if takeWhile isDigit cs = [] then None
             else Some (takeWhile isDigit cs, dropWhile isDigit cs))
          else Some ([], s))"

definition lexExp :: "jsstring \<Rightarrow> (int \<times> jsstring) option" where
  \<comment> \<open>an optional exponent: e or E, an optional sign, one or more digits\<close>
  "lexExp s =
     (case s of
        [] \<Rightarrow> Some (0, s)
      | c # cs \<Rightarrow>
          if c = 101 \<or> c = 69 then
            (let neg = (cs \<noteq> [] \<and> hd cs = 45);
                 ds = (if cs \<noteq> [] \<and> (hd cs = 45 \<or> hd cs = 43) then tl cs else cs)
             in if takeWhile isDigit ds = [] then None
                else Some ((if neg then - 1 else 1) * int (digitsVal (takeWhile isDigit ds)),
                           dropWhile isDigit ds))
          else Some (0, s))"

definition lexNumber :: "jsstring \<Rightarrow> (rat \<times> jsstring) option" where
  "lexNumber s =
     (let neg = (s \<noteq> [] \<and> hd s = 45)
      in case lexInt (if neg then tl s else s) of
           None \<Rightarrow> None
         | Some (ip, s2) \<Rightarrow>
             (case lexFrac s2 of
                None \<Rightarrow> None
              | Some (fp, s3) \<Rightarrow>
                  (case lexExp s3 of
                     None \<Rightarrow> None
                   | Some (e, s4) \<Rightarrow>
                       (let m = of_nat (digitsVal (ip @ fp)) / 10 ^ length fp;
                            v = (if e < 0 then m / 10 ^ nat (- e) else m * 10 ^ nat e)
                        in Some (if neg then - v else v, s4)))))"

definition nextToken :: "jsstring \<Rightarrow> (token \<times> jsstring) option" where
  "nextToken s =
     (case s of
        [] \<Rightarrow> None
      | c # cs \<Rightarrow>
          if c = 123 then Some (TLBrace, cs)
          else if c = 125 then Some (TRBrace, cs)
          else if c = 91 then Some (TLBrack, cs)
          else if c = 93 then Some (TRBrack, cs)
          else if c = 58 then Some (TColon, cs)
          else if c = 44 then Some (TComma, cs)
          else if c = 34 then
            (case lexString [] cs of None \<Rightarrow> None | Some (str, r) \<Rightarrow> Some (TString str, r))
          else if c = 45 \<or> isDigit c then
            (case lexNumber s of None \<Rightarrow> None | Some (q, r) \<Rightarrow> Some (TNumber q, r))
          else if isPrefixOf (js ''true'') s then Some (TTrue, drop 4 s)
          else if isPrefixOf (js ''false'') s then Some (TFalse, drop 5 s)
          else if isPrefixOf (js ''null'') s then Some (TNull, drop 4 s)
          else None)"

lemma lexString_shorter: "lexString acc s = Some (v, r) \<Longrightarrow> length r < length s"
proof (induction "length s" arbitrary: s acc rule: less_induct)
  case less
  show ?case
  proof (cases s)
    case Nil
    with less.prems show ?thesis by simp
  next
    case (Cons c cs)
    have step: "\<And>acc' s'. length s' < length s \<Longrightarrow> lexString acc' s' = Some (v, r) \<Longrightarrow> length r < length s"
      using less.hyps by fastforce
    show ?thesis using less.prems Cons step
      by (auto split: if_splits list.splits option.splits) (metis less_Suc_eq lessI)+
  qed
qed

lemma dropWhile_shorter: "takeWhile P xs \<noteq> [] \<Longrightarrow> length (dropWhile P xs) < length xs"
  by (cases xs) (auto split: if_splits intro: le_imp_less_Suc length_dropWhile_le)

lemma lexInt_shorter: "lexInt s = Some (ip, r) \<Longrightarrow> length r < length s"
  unfolding lexInt_def Let_def by (auto split: if_splits intro: dropWhile_shorter)

lemma lexFrac_shorter: "lexFrac s = Some (fp, r) \<Longrightarrow> length r \<le> length s"
  unfolding lexFrac_def
  by (auto split: list.splits if_splits intro: le_SucI length_dropWhile_le)

lemma lexExp_shorter: "lexExp s = Some (e, r) \<Longrightarrow> length r \<le> length s"
proof -
  assume a: "lexExp s = Some (e, r)"
  have tl_le: "\<And>cs :: jsstring. length (dropWhile isDigit (tl cs)) \<le> length cs"
    by (metis length_dropWhile_le length_tl diff_le_self order_trans)
  show ?thesis using a unfolding lexExp_def Let_def
    by (auto split: list.splits if_splits intro: le_SucI length_dropWhile_le tl_le)
qed

lemma lexNumber_shorter:
  assumes "lexNumber s = Some (v, r)"
  shows "length r < length s"
proof -
  obtain ip s2 fp s3 e where
    1: "lexInt (if s \<noteq> [] \<and> hd s = 45 then tl s else s) = Some (ip, s2)"
    and 2: "lexFrac s2 = Some (fp, s3)" and 3: "lexExp s3 = Some (e, r)"
    using assms unfolding lexNumber_def Let_def
    by (auto split: option.splits)
  have "length s2 < length s"
    using lexInt_shorter [OF 1] by (auto split: if_splits)
  then show ?thesis using lexFrac_shorter [OF 2] lexExp_shorter [OF 3] by linarith
qed

lemma nextToken_shorter: "nextToken s = Some (t, r) \<Longrightarrow> length r < length s"
  unfolding nextToken_def
  by (auto split: list.splits if_splits option.splits
           dest: lexString_shorter lexNumber_shorter)

function lexJson :: "jsstring \<Rightarrow> token list option" where
  "lexJson s =
     (case dropWhile isJsonSpace s of
        [] \<Rightarrow> Some []
      | c # cs \<Rightarrow>
          (case nextToken (c # cs) of
             None \<Rightarrow> None
           | Some (t, r) \<Rightarrow> (case lexJson r of None \<Rightarrow> None | Some ts \<Rightarrow> Some (t # ts))))"
  by pat_completeness auto
termination
proof (relation "measure length")
  show "wf (measure length)" by simp
next
  fix s :: jsstring and c cs x t r
  assume a: "dropWhile isJsonSpace s = c # cs" and b: "nextToken (c # cs) = Some x" and c: "(t, r) = x"
  have "length r < length (c # cs)" using b c nextToken_shorter by metis
  moreover have "length (c # cs) \<le> length s" using a length_dropWhile_le [of isJsonSpace s] by simp
  ultimately show "(r, s) \<in> measure length" by simp
qed

declare lexJson.simps [simp del]

text \<open>
  An object keeps its members in the order of their first appearance; a repeated key
  overwrites the value in place, as property assignment does.
\<close>

fun putMember :: "jsstring \<Rightarrow> json \<Rightarrow> (jsstring \<times> json) list \<Rightarrow> (jsstring \<times> json) list" where
  "putMember k v [] = [(k, v)]"
| "putMember k v ((k', v') # ms) = (if k = k' then (k, v) # ms else (k', v') # putMember k v ms)"

datatype 'a parse = Parsed 'a | Rejected | NoFuel

fun parseValue :: "nat \<Rightarrow> token list \<Rightarrow> (json \<times> token list) parse"
  and parseElements :: "nat \<Rightarrow> json list \<Rightarrow> token list \<Rightarrow> (json \<times> token list) parse"
  and parseMembers :: "nat \<Rightarrow> (jsstring \<times> json) list \<Rightarrow> token list \<Rightarrow> (json \<times> token list) parse"
where
  "parseValue 0 ts = NoFuel"
| "parseValue (Suc n) [] = Rejected"
| "parseValue (Suc n) (t # ts) =
     (case t of
        TNull \<Rightarrow> Parsed (JNull, ts)
      | TTrue \<Rightarrow> Parsed (JBool True, ts)
      | TFalse \<Rightarrow> Parsed (JBool False, ts)
      | TNumber q \<Rightarrow> Parsed (JNum q, ts)
      | TString s \<Rightarrow> Parsed (JStr s, ts)
      | TLBrack \<Rightarrow> (case ts of TRBrack # r \<Rightarrow> Parsed (JArr [], r) | _ \<Rightarrow> parseElements n [] ts)
      | TLBrace \<Rightarrow> (case ts of TRBrace # r \<Rightarrow> Parsed (JObj [], r) | _ \<Rightarrow> parseMembers n [] ts)
      | _ \<Rightarrow> Rejected)"
| "parseElements 0 acc ts = NoFuel"
| "parseElements (Suc n) acc ts =
     (case parseValue n ts of
        Parsed (v, r) \<Rightarrow>
          (case r of
             TComma # r' \<Rightarrow> parseElements n (v # acc) r'
           | TRBrack # r' \<Rightarrow> Parsed (JArr (rev (v # acc)), r')
           | _ \<Rightarrow> Rejected)
      | Rejected \<Rightarrow> Rejected
      | NoFuel \<Rightarrow> NoFuel)"
| "parseMembers 0 acc ts = NoFuel"
| "parseMembers (Suc n) acc ts =
     (case ts of
        TString k # TColon # r \<Rightarrow>
          (case parseValue n r of
             Parsed (v, r') \<Rightarrow>
               (case r' of
                  TComma # r'' \<Rightarrow> parseMembers n (putMember k v acc) r''
                | TRBrace # r'' \<Rightarrow> Parsed (JObj (putMember k v acc), r'')
                | _ \<Rightarrow> Rejected)
           | Rejected \<Rightarrow> Rejected
           | NoFuel \<Rightarrow> NoFuel)
      | _ \<Rightarrow> Rejected)"

definition JSON_parse :: "jsstring \<Rightarrow> error + json" where
  "JSON_parse s =
     (case lexJson s of
        None \<Rightarrow> Inl (SyntaxError s)
      | Some ts \<Rightarrow>
          (case parseValue (Suc (2 * length ts)) ts of
             Parsed (v, []) \<Rightarrow> Inr v
           | _ \<Rightarrow> Inl (SyntaxError s)))"

text \<open>
  The fuel of \<open>JSON_parse\<close> is enough: with more fuel than twice the number of tokens
  the parser never runs out, so \<open>JSON_parse\<close> rejects a text only for its syntax.
\<close>

definition fueled :: "(json \<times> token list) parse \<Rightarrow> token list \<Rightarrow> bool" where
  "fueled p ts = (p \<noteq> NoFuel \<and> (\<forall>v r. p = Parsed (v, r) \<longrightarrow> length r < length ts))"

lemma fueled_simps:
  "fueled NoFuel ts = False"
  "fueled Rejected ts = True"
  "fueled (Parsed (v, r)) ts = (length r < length ts)"
  by (simp_all add: fueled_def)

lemma parse_fuel:
  "(2 * length ts < n \<longrightarrow> fueled (parseValue n ts) ts) \<and>
   (2 * length ts + 1 < n \<longrightarrow> fueled (parseElements n es ts) ts) \<and>
   (2 * length ts + 1 < n \<longrightarrow> fueled (parseMembers n ms ts) ts)"
proof (induction n arbitrary: ts es ms)
  case 0
  show ?case by simp
next
  case (Suc n)
  have V: "2 * length ts' < n \<Longrightarrow> fueled (parseValue n ts') ts'" for ts'
    using Suc.IH by blast
  have E: "2 * length ts' + 1 < n \<Longrightarrow> fueled (parseElements n es' ts') ts'" for ts' es'
    using Suc.IH by blast
  have M: "2 * length ts' + 1 < n \<Longrightarrow> fueled (parseMembers n ms' ts') ts'" for ts' ms'
    using Suc.IH by blast
  have mono: "fueled p ts' \<Longrightarrow> length ts' \<le> length ts'' \<Longrightarrow> fueled p ts''" for p ts' ts''
    by (auto simp: fueled_def)
  have 1: "fueled (parseValue (Suc n) ts) ts" if a: "2 * length ts < Suc n"
  proof (cases ts)
    case Nil
    then show ?thesis by (simp add: fueled_simps)
  next
    case (Cons t ts')
    have e: "fueled (parseElements n [] ts') ts" 
      using mono [OF E [of ts' "[]"]] a Cons by simp
    have m: "fueled (parseMembers n [] ts') ts"
      using mono [OF M [of ts' "[]"]] a Cons by simp
    show ?thesis using Cons e m
      by (cases t) (auto simp: fueled_simps split: list.splits token.splits)
  qed
  have 2: "fueled (parseElements (Suc n) es ts) ts" if a: "2 * length ts + 1 < Suc n"
  proof (cases "parseValue n ts")
    case (Parsed x)
    obtain v r where x: "x = (v, r)" by (cases x)
    have lr: "length r < length ts" using V [of ts] a Parsed x by (simp add: fueled_simps)
    show ?thesis
    proof (cases r)
      case Nil
      then show ?thesis using Parsed x by (simp add: fueled_simps)
    next
      case (Cons t r')
      have "fueled (parseElements n (v # es) r') ts"
        using mono [OF E [of r' "v # es"]] a lr Cons by simp
      then show ?thesis using Parsed x Cons lr
        by (cases t) (auto simp: fueled_simps)
    qed
  next
    case Rejected
    then show ?thesis by (simp add: fueled_simps)
  next
    case NoFuel
    then show ?thesis using V [of ts] a by (simp add: fueled_simps)
  qed
  have 3: "fueled (parseMembers (Suc n) ms ts) ts" if a: "2 * length ts + 1 < Suc n"
  proof -
    { fix k r assume ts: "ts = TString k # TColon # r"
      have "fueled (parseMembers (Suc n) ms ts) ts"
      proof (cases "parseValue n r")
        case (Parsed x)
        obtain v r' where x: "x = (v, r')" by (cases x)
        have lr: "length r' < length r" using V [of r] a ts Parsed x by (simp add: fueled_simps)
        show ?thesis
        proof (cases r')
          case Nil
          then show ?thesis using Parsed x ts by (simp add: fueled_simps)
        next
          case (Cons t r'')
          have "fueled (parseMembers n (putMember k v ms) r'') ts"
            using mono [OF M [of r'' "putMember k v ms"]] a lr Cons ts by simp
          then show ?thesis using Parsed x Cons lr ts
            by (cases t) (auto simp: fueled_simps)
        qed
      next
        case Rejected
        then show ?thesis using ts by (simp add: fueled_simps)
      next
        case NoFuel
        then show ?thesis using V [of r] a ts by (simp add: fueled_simps)
      qed }
    moreover
    { assume "\<nexists>k r. ts = TString k # TColon # r"
      then have "parseMembers (Suc n) ms ts = Rejected"
        by (auto split: list.splits token.splits)
      then have "fueled (parseMembers (Suc n) ms ts) ts" by (simp add: fueled_simps) }
    ultimately show ?thesis by blast
  qed
  show ?case using 1 2 3 by blast
qed

lemma parseValue_fuel: "parseValue (Suc (2 * length ts)) ts \<noteq> NoFuel"
  using parse_fuel [of ts "Suc (2 * length ts)"] by (simp add: fueled_def)

section \<open>JSON extraction\<close>

definition isFence :: "jsstring \<Rightarrow> bool" where
  "isFence s = isPrefixOf [96, 96, 96] s"

definition isJsonFence :: "jsstring \<Rightarrow> bool" where
  \<comment> \<open>three backticks and \<open>json\<close> in either letter case (flag \<open>i\<close>; no unit outside
      ASCII is equal to an ASCII letter under it)\<close>
  "isJsonFence s = (isFence s \<and> map toLowerUnit (take 4 (drop 3 s)) = js ''json'')"

function stripJsonFences :: "jsstring \<Rightarrow> jsstring" where
  \<comment> \<open>\<open>raw.replace(/```json\s*/gi, "")\<close>\<close>
  "stripJsonFences [] = []"
| "stripJsonFences (c # cs) =
     (if isJsonFence (c # cs) then stripJsonFences (dropWhile isSpace (drop 6 cs))
      else c # stripJsonFences cs)"
  by pat_completeness auto
termination
  by (relation "measure length")
     (auto intro!: le_imp_less_Suc order_trans [OF length_dropWhile_le])

function stripFences :: "jsstring \<Rightarrow> jsstring" where
  \<comment> \<open>\<open>.replace(/```\s*/g, "")\<close>\<close>
  "stripFences [] = []"
| "stripFences (c # cs) =
     (if isFence (c # cs) then stripFences (dropWhile isSpace (drop 2 cs))
      else c # stripFences cs)"
  by pat_completeness auto
termination
  by (relation "measure length")
     (auto intro!: le_imp_less_Suc order_trans [OF length_dropWhile_le])

fun braceEnd :: "int \<Rightarrow> nat \<Rightarrow> jsstring \<Rightarrow> nat option" where
  \<comment> \<open>the \<open>for\<close> loop: \<open>braceEnd depth i (text.slice(i))\<close> is the final value of \<open>end\<close>,
      \<open>None\<close> for -1\<close>
  "braceEnd depth i [] = None"
| "braceEnd depth i (c # cs) =
     (if c = 123 then braceEnd (depth + 1) (i + 1) cs
      else if c = 125 then (if depth - 1 = 0 then Some i else braceEnd (depth - 1) (i + 1) cs)
      else braceEnd depth (i + 1) cs)"

text \<open>
  The pattern of the repair, \<open>/,\s*"[^"]*"?\s*:?\s*[^,}\]]*$/\<close>, is a sequence of
  single-unit classes, each taken once, optionally or any number of times. \<open>matchEnd\<close>
  decides whether a text matches such a sequence up to its end, trying the longer match
  first and the shorter one next, as the backtracking matcher does.
\<close>

datatype item = Once "nat \<Rightarrow> bool" | Maybe "nat \<Rightarrow> bool" | Many "nat \<Rightarrow> bool"

fun matchEnd :: "item list \<Rightarrow> jsstring \<Rightarrow> bool" where
  "matchEnd [] s = (s = [])"
| "matchEnd (Once p # r) [] = False"
| "matchEnd (Once p # r) (c # cs) = (if p c then matchEnd r cs else False)"
| "matchEnd (Maybe p # r) [] = matchEnd r []"
| "matchEnd (Maybe p # r) (c # cs) =
     (if p c then (if matchEnd r cs then True else matchEnd r (c # cs)) else matchEnd r (c # cs))"
| "matchEnd (Many p # r) [] = matchEnd r []"
| "matchEnd (Many p # r) (c # cs) =
     (if p c then (if matchEnd (Many p # r) cs then True else matchEnd r (c # cs))
      else matchEnd r (c # cs))"

definition tailPattern :: "item list" where
  "tailPattern =
     [Once (\<lambda>c. c = 44), Many isSpace, Once (\<lambda>c. c = 34), Many (\<lambda>c. c \<noteq> 34),
      Maybe (\<lambda>c. c = 34), Many isSpace, Maybe (\<lambda>c. c = 58), Many isSpace,
      Many (\<lambda>c. c \<noteq> 44 \<and> c \<noteq> 125 \<and> c \<noteq> 93)]"

fun stripTail :: "jsstring \<Rightarrow> jsstring" where
  \<comment> \<open>\<open>s.replace(/,\s*"[^"]*"?\s*:?\s*[^,}\]]*$/, "")\<close>: the leftmost position from which the
      rest of the text matches is where the text is cut\<close>
  "stripTail [] = []"
| "stripTail (c # cs) = (if matchEnd tailPattern (c # cs) then [] else c # stripTail cs)"

definition countUnit :: "nat \<Rightarrow> jsstring \<Rightarrow> int" where
  \<comment> \<open>\<open>(s.match(/c/g)||[]).length\<close>\<close>
  "countUnit c s = int (length (filter (\<lambda>x. x = c) s))"

definition repair :: "jsstring \<Rightarrow> jsstring" where
  "repair s =
     (let opens = countUnit 91 s - countUnit 93 s;
          objs = countUnit 123 s - countUnit 125 s
      in stripTail s @ replicate (nat (max 0 opens)) 93 @ replicate (nat (max 0 objs)) 125)"

definition candidate :: "jsstring \<Rightarrow> error + jsstring" where
  \<comment> \<open>everything of \<open>extractJSON\<close> up to its last line: the text handed to \<open>JSON.parse\<close>\<close>
  "candidate raw =
     (let text = trim (stripFences (stripJsonFences raw))
      in if 123 \<notin> set text
         then Inl (Error (js ''No JSON object in response:'' @ [10] @ take 300 text))
         else
           let start = length (takeWhile (\<lambda>c. c \<noteq> 123) text)
           in case braceEnd 0 start (drop start text) of
                Some end \<Rightarrow> Inr (take (end + 1 - start) (drop start text))
              | None \<Rightarrow> Inr (repair (drop start text)))"

definition extractJSON :: "jsstring \<Rightarrow> error + json" where
  "extractJSON raw = (case candidate raw of Inl e \<Rightarrow> Inl e | Inr s \<Rightarrow> JSON_parse s)"

section \<open>JavaScript values\<close>

text \<open>
  A value read from a JSON document is a \<open>json\<close>; \<open>undefined\<close> is \<open>None\<close> of
  \<open>json option\<close>. A number is kept as the exact value of its literal; the double it
  denotes matters in two places only, which are written out: a literal of magnitude at
  most \<open>2^-1075\<close> denotes zero, and one of magnitude at least \<open>2^1024 - 2^970\<close>
  denotes an infinity.
\<close>

definition isZero :: "rat \<Rightarrow> bool" where
  "isZero q = (\<bar>q\<bar> \<le> 1 / 2 ^ 1075)"

definition isInfinite :: "rat \<Rightarrow> bool" where
  "isInfinite q = (\<bar>q\<bar> \<ge> 2 ^ 1024 - 2 ^ 970)"

fun truthy :: "json option \<Rightarrow> bool" where
  "truthy None = False"
| "truthy (Some JNull) = False"
| "truthy (Some (JBool b)) = b"
| "truthy (Some (JNum q)) = (\<not> isZero q)"
| "truthy (Some (JStr s)) = (s \<noteq> [])"
| "truthy (Some (JArr xs)) = True"
| "truthy (Some (JObj ms)) = True"

definition indexOfKey :: "jsstring \<Rightarrow> nat option" where
  \<comment> \<open>the array index a property name denotes: a decimal numeral without leading zero\<close>
  "indexOfKey k =
     (if k \<noteq> [] \<and> list_all isDigit k \<and> (k = [48] \<or> hd k \<noteq> 48) \<and> digitsVal k < 2 ^ 32 - 1
      then Some (digitsVal k) else None)"

text \<open>
  \<open>getOwn v k\<close> is the property \<open>k\<close> of a value that is neither \<open>null\<close> nor
  \<open>undefined\<close>: a member of an object (the first binding of the name in the list), an
  element or the length of an array or string. The names the program reads (\<open>error\<close>,
  \<open>message\<close>, \<open>content\<close>, \<open>text\<close>, \<open>candidates\<close>, \<open>parts\<close>, \<open>finishReason\<close>,
  \<open>stop_reason\<close>, \<open>lineItems\<close>, the field keys, \<open>length\<close> and \<open>0\<close>) are not names of
  inherited properties, which the model leaves out.
\<close>

fun getOwn :: "json \<Rightarrow> jsstring \<Rightarrow> json option" where
  "getOwn (JObj ms) k = map_of ms k"
| "getOwn (JArr xs) k =
     (if k = js ''length'' then Some (JNum (of_nat (length xs)))
      else case indexOfKey k of
             Some i \<Rightarrow> (if i < length xs then Some (xs ! i) else None)
           | None \<Rightarrow> None)"
| "getOwn (JStr s) k =
     (if k = js ''length'' then Some (JNum (of_nat (length s)))
      else case indexOfKey k of
             Some i \<Rightarrow> (if i < length s then Some (JStr [s ! i]) else None)
           | None \<Rightarrow> None)"
| "getOwn v k = None"

definition getProp :: "json option \<Rightarrow> jsstring \<Rightarrow> error + json option" where
  \<comment> \<open>\<open>v.k\<close> and \<open>v[k]\<close>\<close>
  "getProp v k =
     (case v of
        None \<Rightarrow> Inl (TypeError k)
      | Some JNull \<Rightarrow> Inl (TypeError k)
      | Some x \<Rightarrow> Inr (getOwn x k))"

definition optProp :: "json option \<Rightarrow> jsstring \<Rightarrow> json option" where
  \<comment> \<open>\<open>v?.k\<close> and \<open>v?.[k]\<close>\<close>
  "optProp v k =
     (case v of
        None \<Rightarrow> None
      | Some JNull \<Rightarrow> None
      | Some x \<Rightarrow> getOwn x k)"

text \<open>What the JavaScript engine chooses: the text of a number and the messages of its own errors.\<close>

record engine =
  numberToString :: "rat \<Rightarrow> jsstring"
  syntaxErrorMessage :: "jsstring \<Rightarrow> jsstring"
  typeErrorMessage :: "jsstring \<Rightarrow> jsstring"

fun message :: "engine \<Rightarrow> error \<Rightarrow> jsstring" where
  "message eng (Error m) = m"
| "message eng (SyntaxError t) = syntaxErrorMessage eng t"
| "message eng (TypeError p) = typeErrorMessage eng p"

fun joinWith :: "jsstring \<Rightarrow> jsstring list \<Rightarrow> jsstring" where
  "joinWith sep [] = []"
| "joinWith sep [x] = x"
| "joinWith sep (x # y # ys) = x @ sep @ joinWith sep (y # ys)"

fun toString :: "engine \<Rightarrow> json \<Rightarrow> jsstring" where
  \<comment> \<open>the abstract operation ToString, as template literals, \<open>new Error\<close> and \<open>join\<close> apply it\<close>
  "toString eng JNull = js ''null''"
| "toString eng (JBool b) = (if b then js ''true'' else js ''false'')"
| "toString eng (JNum q) = numberToString eng q"
| "toString eng (JStr s) = s"
| "toString eng (JArr xs) = joinWith [44] (map (\<lambda>x. if x = JNull then [] else toString eng x) xs)"
| "toString eng (JObj ms) = js ''[object Object]''"

definition hexDigit :: "nat \<Rightarrow> nat" where
  "hexDigit d = (if d < 10 then 48 + d else 87 + d)"

definition unicodeEscape :: "nat \<Rightarrow> jsstring" where
  "unicodeEscape c =
     [92, 117, hexDigit (c div 4096 mod 16), hexDigit (c div 256 mod 16),
      hexDigit (c div 16 mod 16), hexDigit (c mod 16)]"

definition isHighSurrogate :: "nat \<Rightarrow> bool" where
  "isHighSurrogate c = (55296 \<le> c \<and> c \<le> 56319)"

definition isLowSurrogate :: "nat \<Rightarrow> bool" where
  "isLowSurrogate c = (56320 \<le> c \<and> c \<le> 57343)"

fun quoteUnits :: "jsstring \<Rightarrow> jsstring" where
  "quoteUnits [] = []"
| "quoteUnits (c # cs) =
     (if c = 34 then [92, 34] @ quoteUnits cs
      else if c = 92 then [92, 92] @ quoteUnits cs
      else if c = 8 then [92, 98] @ quoteUnits cs
      else if c = 12 then [92, 102] @ quoteUnits cs
      else if c = 10 then [92, 110] @ quoteUnits cs
      else if c = 13 then [92, 114] @ quoteUnits cs
      else if c = 9 then [92, 116] @ quoteUnits cs
      else if c < 32 then unicodeEscape c @ quoteUnits cs
      else if isHighSurrogate c then
        (case cs of
           [] \<Rightarrow> unicodeEscape c
         | d # ds \<Rightarrow>
             if isLowSurrogate d then c # d # quoteUnits ds else unicodeEscape c @ quoteUnits cs)
      else if isLowSurrogate c then unicodeEscape c @ quoteUnits cs
      else c # quoteUnits cs)"

definition quote :: "jsstring \<Rightarrow> jsstring" where
  "quote s = [34] @ quoteUnits s @ [34]"

fun firstBindings :: "jsstring list \<Rightarrow> (jsstring \<times> json) list \<Rightarrow> (jsstring \<times> json) list" where
  "firstBindings seen [] = []"
| "firstBindings seen ((k, v) # ms) =
     (if k \<in> set seen then firstBindings seen ms else (k, v) # firstBindings (k # seen) ms)"

definition ownMembers :: "(jsstring \<times> json) list \<Rightarrow> (jsstring \<times> json) list" where
  \<comment> \<open>the members in property order: array indices ascending, then the other names in
      the order of their insertion\<close>
  "ownMembers ms =
     (let bs = firstBindings [] ms
      in sort_key (\<lambda>(k, v). case indexOfKey k of Some i \<Rightarrow> i | None \<Rightarrow> 0)
           (filter (\<lambda>(k, v). indexOfKey k \<noteq> None) bs)
         @ filter (\<lambda>(k, v). indexOfKey k = None) bs)"

lemma firstBindings_subset: "set (firstBindings seen ms) \<subseteq> set ms"
  by (induction seen ms rule: firstBindings.induct) auto

lemma ownMembers_subset: "set (ownMembers ms) \<subseteq> set ms"
  unfolding ownMembers_def Let_def using firstBindings_subset [of "[]" ms] by auto

lemma member_size: "(k, v) \<in> set ms \<Longrightarrow> size v < size (JObj ms)"
  by (induction ms) auto

function stringify :: "engine \<Rightarrow> json \<Rightarrow> jsstring" where
  \<comment> \<open>\<open>JSON.stringify\<close> of a value that came from JSON\<close>
  "stringify eng JNull = js ''null''"
| "stringify eng (JBool b) = (if b then js ''true'' else js ''false'')"
| "stringify eng (JNum q) = (if isInfinite q then js ''null'' else numberToString eng q)"
| "stringify eng (JStr s) = quote s"
| "stringify eng (JArr xs) = [91] @ joinWith [44] (map (stringify eng) xs) @ [93]"
| "stringify eng (JObj ms) =
     [123] @ joinWith [44] (map (\<lambda>(k, v). quote k @ [58] @ stringify eng v) (ownMembers ms)) @ [125]"
  by pat_completeness auto
termination
proof (relation "measure (\<lambda>(eng, v). size v)")
  show "wf (measure (\<lambda>(eng, v). size v))" by simp
next
  fix eng :: engine and xs :: "json list" and x
  assume "x \<in> set xs"
  then have "size x < size (JArr xs)" by (induction xs) auto
  then show "((eng, x), eng, JArr xs) \<in> measure (\<lambda>(eng, v). size v)" by simp
next
  fix eng :: engine and ms :: "(jsstring \<times> json) list" and x k v
  assume "x \<in> set (ownMembers ms)" and "(k, v) = x"
  then have "(k, v) \<in> set ms" using ownMembers_subset by auto
  then show "((eng, v), eng, JObj ms) \<in> measure (\<lambda>(eng, v). size v)"
    using member_size by simp
qed

definition orElse :: "json option \<Rightarrow> json \<Rightarrow> json" where
  \<comment> \<open>\<open>a || b\<close>\<close>
  "orElse a b = (case a of None \<Rightarrow> b | Some x \<Rightarrow> if truthy a then x else b)"

definition optPath :: "json option \<Rightarrow> jsstring list \<Rightarrow> json option" where
  \<comment> \<open>a chain \<open>v?.a?.b?.c\<close>\<close>
  "optPath v ks = foldl optProp v ks"

section \<open>The serverless function\<close>

text \<open>
  What reaches the function from outside: the two keys of \<open>process.env\<close>, the request,
  and what each provider does with the one request it is sent. \<open>Threw m\<close> is a
  \<open>fetch\<close> or a \<open>res.json()\<close> that rejects with the message \<open>m\<close>, \<open>Reply status data\<close>
  a response with that status and that JSON body. The body of the request has the three
  string fields that the function documents; an absent field and an empty one take the
  same branch of its checks and are both the empty string here.
\<close>

record env =
  ANTHROPIC_API_KEY :: "jsstring option"
  GEMINI_API_KEY :: "jsstring option"

record reqBody =
  imageBase64 :: jsstring
  bodyMediaType :: jsstring
  prompt :: jsstring

record request =
  httpMethod :: jsstring
  payload :: "reqBody option"

datatype reply = Threw jsstring | Reply nat json

datatype provider = Anthropic | Gemini

datatype event = Rasterize upload | Post reqBody | Call provider | Console jsstring

record providerResult =
  provider :: jsstring
  content :: json

record response =
  status :: nat
  body :: json

definition present :: "jsstring option \<Rightarrow> bool" where
  \<comment> \<open>a key of the environment that is set and not empty\<close>
  "present k = (k \<noteq> None \<and> k \<noteq> Some [])"

definition ok :: "nat \<Rightarrow> bool" where
  \<comment> \<open>\<open>res.ok\<close>\<close>
  "ok st = (200 \<le> st \<and> st \<le> 299)"

definition errorBody :: "jsstring \<Rightarrow> json" where
  "errorBody m = JObj [(js ''error'', JStr m)]"

definition resultBody :: "providerResult \<Rightarrow> json" where
  "resultBody r = JObj [(js ''provider'', JStr (provider r)), (js ''content'', content r)]"

definition upstreamMessage :: "engine \<Rightarrow> json \<Rightarrow> jsstring" where
  \<comment> \<open>\<open>data?.error?.message || JSON.stringify(data)\<close> inside a template literal\<close>
  "upstreamMessage eng data =
     toString eng (orElse (optPath (Some data) [js ''error'', js ''message'']) (JStr (stringify eng data)))"

definition geminiText :: "json \<Rightarrow> json" where
  \<comment> \<open>\<open>data?.candidates?.[0]?.content?.parts?.[0]?.text || ""\<close>\<close>
  "geminiText data =
     orElse (optPath (Some data)
               [js ''candidates'', js ''0'', js ''content'', js ''parts'', js ''0'', js ''text''])
            (JStr [])"

definition geminiReason :: "json \<Rightarrow> json" where
  \<comment> \<open>\<open>data?.candidates?.[0]?.finishReason || "unknown"\<close>\<close>
  "geminiReason data =
     orElse (optPath (Some data) [js ''candidates'', js ''0'', js ''finishReason''])
            (JStr (js ''unknown''))"

definition textContent :: "json \<Rightarrow> json" where
  \<comment> \<open>\<open>[{ type: "text", text }]\<close>\<close>
  "textContent text = JArr [JObj [(js ''type'', JStr (js ''text'')), (js ''text'', text)]]"

subsection \<open>src/extract.js\<close>

definition callAnthropic :: "engine \<Rightarrow> reply \<Rightarrow> error + providerResult" where
  "callAnthropic eng r =
     (case r of
        Threw m \<Rightarrow> Inl (Error m)
      | Reply st data \<Rightarrow>
          if \<not> ok st
          then Inl (Error (js ''Anthropic '' @ showNat st @ js '': '' @ upstreamMessage eng data))
          else
            (case getProp (Some data) (js ''content'') of
               Inl e \<Rightarrow> Inl e
             | Inr None \<Rightarrow> Inl (Error (js ''Anthropic returned empty content''))
             | Inr (Some c) \<Rightarrow>
                 if \<not> truthy (optProp (Some c) (js ''length''))
                 then Inl (Error (js ''Anthropic returned empty content''))
                 else Inr \<lparr>provider = js ''anthropic'', content = c\<rparr>))"

definition callGemini :: "engine \<Rightarrow> reply \<Rightarrow> error + providerResult" where
  "callGemini eng r =
     (case r of
        Threw m \<Rightarrow> Inl (Error m)
      | Reply st data \<Rightarrow>
          if \<not> ok st
          then Inl (Error (js ''Gemini '' @ showNat st @ js '': '' @ upstreamMessage eng data))
          else
            (let text = geminiText data
             in if \<not> truthy (Some text)
                then Inl (Error (js ''Gemini returned empty content (finishReason: ''
                                 @ toString eng (geminiReason data) @ js '')''))
                else Inr \<lparr>provider = js ''gemini'', content = textContent text\<rparr>))"

definition noKeyMessage :: jsstring where
  "noKeyMessage =
     js ''No API key configured. Add ANTHROPIC_API_KEY or GEMINI_API_KEY in Vercel '' @ [8594]
     @ js '' Settings '' @ [8594] @ js '' Environment Variables.''"

definition approxKB :: "jsstring \<Rightarrow> nat" where
  \<comment> \<open>\<open>Math.round(imageBase64.length * 0.75 / 1024)\<close>, which is
      \<open>floor (3 * length / 4096 + 1 / 2)\<close>\<close>
  "approxKB b64 = (3 * length b64 + 2048) div 4096"

definition handler :: "engine \<Rightarrow> env \<Rightarrow> request \<Rightarrow> reply \<Rightarrow> reply \<Rightarrow> event list \<times> response" where
  "handler eng env req anthropicReply geminiReply =
     (if httpMethod req \<noteq> js ''POST''
      then ([], \<lparr>status = 405, body = errorBody (js ''Method not allowed'')\<rparr>)
      else if \<not> present (ANTHROPIC_API_KEY env) \<and> \<not> present (GEMINI_API_KEY env)
      then ([], \<lparr>status = 500, body = errorBody noKeyMessage\<rparr>)
      else
        (case payload req of
           None \<Rightarrow>
             ([], \<lparr>status = 400,
                   body = errorBody (js ''Missing fields: imageBase64, mediaType, prompt'')\<rparr>)
         | Some b \<Rightarrow>
             if imageBase64 b = [] \<or> bodyMediaType b = [] \<or> prompt b = []
             then ([], \<lparr>status = 400,
                        body = errorBody (js ''Missing fields: imageBase64, mediaType, prompt'')\<rparr>)
             else if approxKB (imageBase64 b) > 5120
             then ([], \<lparr>status = 413,
                        body = errorBody (js ''Image too large ('' @ showNat (approxKB (imageBase64 b))
                                          @ js ''KB). Max ~5MB.'')\<rparr>)
             else
               (let useAnthropic = present (ANTHROPIC_API_KEY env);
                    started =
                      [Console (js ''[extract] provider=''
                                @ (if useAnthropic then js ''anthropic'' else js ''gemini'')
                                @ js '' size='' @ showNat (approxKB (imageBase64 b)) @ js ''KB''),
                       Call (if useAnthropic then Anthropic else Gemini)]
                in case (if useAnthropic then callAnthropic eng anthropicReply
                         else callGemini eng geminiReply) of
                     Inr result \<Rightarrow> (started, \<lparr>status = 200, body = resultBody result\<rparr>)
                   | Inl primaryErr \<Rightarrow>
                       (let failed =
                              started @ [Console (js ''[extract] primary error: ''
                                                  @ message eng primaryErr)]
                        in if useAnthropic \<and> present (GEMINI_API_KEY env)
                           then
                             (let retried =
                                    failed @ [Console (js ''[extract] Anthropic failed '' @ [8212]
                                                       @ js '' trying Gemini fallback''),
                                              Call Gemini]
                              in case callGemini eng geminiReply of
                                   Inr fallback \<Rightarrow>
                                     (retried,
                                      \<lparr>status = 200,
                                       body = JObj [(js ''provider'', JStr (provider fallback)),
                                                    (js ''content'', content fallback),
                                                    (js ''usedFallback'', JBool True)]\<rparr>)
                                 | Inl fallbackErr \<Rightarrow>
                                     (retried @ [Console (js ''[extract] Gemini fallback failed: ''
                                                          @ message eng fallbackErr)],
                                      \<lparr>status = 502,
                                       body = errorBody (js ''Both providers failed.'' @ [10]
                                                         @ js ''Anthropic: '' @ message eng primaryErr
                                                         @ [10] @ js ''Gemini: ''
                                                         @ message eng fallbackErr)\<rparr>))
                           else (failed, \<lparr>status = 502, body = errorBody (message eng primaryErr)\<rparr>)))))"

subsection \<open>src/api/extract.js\<close>

definition callAnthropic_api :: "engine \<Rightarrow> reply \<Rightarrow> error + providerResult" where
  "callAnthropic_api eng r =
     (case r of
        Threw m \<Rightarrow> Inl (Error m)
      | Reply st data \<Rightarrow>
          if \<not> ok st
          then Inl (Error (js ''Anthropic HTTP '' @ showNat st @ js '': '' @ upstreamMessage eng data))
          else
            (case getProp (Some data) (js ''error'') of
               Inl e \<Rightarrow> Inl e
             | Inr err \<Rightarrow>
                 (case (if truthy err then err else None) of
                    Some ev \<Rightarrow>
                      Inl (Error (js ''Anthropic API error: ''
                                  @ toString eng (orElse (getOwn ev (js ''message''))
                                                         (JStr (stringify eng ev)))))
                  | None \<Rightarrow>
                      (let noContent =
                             Inl (Error (js ''Anthropic returned no content (stop_reason: ''
                                         @ (case getOwn data (js ''stop_reason'') of
                                              None \<Rightarrow> js ''undefined''
                                            | Some v \<Rightarrow> toString eng v)
                                         @ js '')''))
                       in case getOwn data (js ''content'') of
                            None \<Rightarrow> noContent
                          | Some c \<Rightarrow>
                              if getOwn data (js ''stop_reason'') = Some (JStr (js ''error''))
                                 \<or> \<not> truthy (optProp (Some c) (js ''length''))
                              then noContent
                              else Inr \<lparr>provider = js ''anthropic'', content = c\<rparr>))))"

definition callGemini_api :: "engine \<Rightarrow> reply \<Rightarrow> error + providerResult" where
  "callGemini_api eng r =
     (case r of
        Threw m \<Rightarrow> Inl (Error m)
      | Reply st data \<Rightarrow>
          if \<not> ok st
          then Inl (Error (js ''Gemini HTTP '' @ showNat st @ js '': '' @ upstreamMessage eng data))
          else
            (let text = geminiText data
             in if \<not> truthy (Some text)
                then Inl (Error (js ''Gemini returned empty content (finishReason: ''
                                 @ toString eng (geminiReason data) @ js '')''))
                else Inr \<lparr>provider = js ''gemini'', content = textContent text\<rparr>))"

definition handler_api :: "engine \<Rightarrow> env \<Rightarrow> request \<Rightarrow> reply \<Rightarrow> reply \<Rightarrow> event list \<times> response" where
  "handler_api eng env req anthropicReply geminiReply =
     (if httpMethod req \<noteq> js ''POST''
      then ([], \<lparr>status = 405, body = errorBody (js ''Method not allowed'')\<rparr>)
      else if \<not> present (ANTHROPIC_API_KEY env) \<and> \<not> present (GEMINI_API_KEY env)
      then ([], \<lparr>status = 500, body = errorBody noKeyMessage\<rparr>)
      else
        (case payload req of
           None \<Rightarrow>
             ([], \<lparr>status = 400,
                   body = errorBody (js ''Missing fields: imageBase64, mediaType, prompt'')\<rparr>)
         | Some b \<Rightarrow>
             if imageBase64 b = [] \<or> bodyMediaType b = [] \<or> prompt b = []
             then ([], \<lparr>status = 400,
                        body = errorBody (js ''Missing fields: imageBase64, mediaType, prompt'')\<rparr>)
             else if approxKB (imageBase64 b) > 5120
             then ([], \<lparr>status = 413,
                        body = errorBody (js ''Image too large ('' @ showNat (approxKB (imageBase64 b))
                                          @ js ''KB). Max ~5MB.'')\<rparr>)
             else
               (let size = js '' size='' @ showNat (approxKB (imageBase64 b)) @ js ''KB'';
                    tryGemini = (\<lambda>before.
                      let started = before @ [Console (js ''[extract] trying Gemini,'' @ size),
                                              Call Gemini]
                      in case callGemini_api eng geminiReply of
                           Inr result \<Rightarrow>
                             (started @ [Console (js ''[extract] Gemini succeeded'')],
                              \<lparr>status = 200, body = resultBody result\<rparr>)
                         | Inl geminiErr \<Rightarrow>
                             (started @ [Console (js ''[extract] Gemini failed: ''
                                                  @ message eng geminiErr)],
                              \<lparr>status = 502,
                               body = errorBody (js ''Gemini failed: '' @ message eng geminiErr)\<rparr>))
                in if present (ANTHROPIC_API_KEY env)
                   then
                     (let started = [Console (js ''[extract] trying Anthropic,'' @ size),
                                     Call Anthropic]
                      in case callAnthropic_api eng anthropicReply of
                           Inr result \<Rightarrow>
                             (started @ [Console (js ''[extract] Anthropic succeeded'')],
                              \<lparr>status = 200, body = resultBody result\<rparr>)
                         | Inl anthropicErr \<Rightarrow>
                             (let failed = started @ [Console (js ''[extract] Anthropic failed: ''
                                                               @ message eng anthropicErr)]
                              in if \<not> present (GEMINI_API_KEY env)
                                 then (failed,
                                       \<lparr>status = 502,
                                        body = errorBody (js ''Anthropic failed: ''
                                                          @ message eng anthropicErr)\<rparr>)
                                 else tryGemini
                                        (failed @ [Console (js ''[extract] Falling back to Gemini...'')])))
                   else tryGemini [])))"

section \<open>The browser side\<close>

definition FIELDS :: "jsstring list" where
  \<comment> \<open>the keys of \<open>FIELDS\<close>, in its order\<close>
  "FIELDS =
     [js ''invoiceNo'', js ''invoiceDate'', js ''dueDate'', js ''paymentTerms'', js ''vendorName'',
      js ''vendorAddress'', js ''billToName'', js ''billToAddress'', js ''amount'', js ''currency'',
      js ''taxAmount'', js ''poNumber'', js ''description'', js ''bankDetails'']"

definition EXTRACTION_PROMPT :: jsstring where
  \<open>EXTRACTION_PROMPT =
     js ''You are an invoice data extractor. Your ENTIRE response must be a sing''
     @ js ''le valid JSON object ''
     @ [8212]
     @ js '' no prose, no markdown, no backticks, no explanation before or after.''
     @ js ''\<newline>''
     @ js ''\<newline>''
     @ js ''Extract every field visible on this invoice and return this exact stru''
     @ js ''cture:\<newline>''
     @ js ''{"invoiceNo":"","invoiceDate":"","dueDate":"","paymentTerms":"","vendo''
     @ js ''rName":"","vendorAddress":"","billToName":"","billToAddress":"","amoun''
     @ js ''t":"","currency":"","taxAmount":"","poNumber":"","description":"","ban''
     @ js ''kDetails":"","lineItems":[{"description":"","qty":"","unitPrice":"","a''
     @ js ''mount":""}]}\<newline>''
     @ js ''\<newline>''
     @ js ''Rules:\<newline>''
     @ js ''- amounts: numeric string only e.g. "4299.00"\<newline>''
     @ js ''- dates: YYYY-MM-DD format\<newline>''
     @ js ''- currency: 3-letter code e.g. "HKD", "USD"\<newline>''
     @ js ''- lineItems: include ALL line items found; use [] if none\<newline>''
     @ js ''- Extract ALL text faithfully including Chinese/Japanese/Korean charac''
     @ js ''ters ''
     @ [8212]
     @ js '' do not skip or translate non-English text\<newline>''
     @ js ''- empty string "" for any field not present\<newline>''
     @ js ''- DO NOT wrap in markdown. Start your response with { and end with }''\<close>

record invoice =
  form :: "(jsstring \<times> json) list"
  lineItems :: "json list"

definition coerce :: "json \<Rightarrow> error + invoice" where
  \<comment> \<open>the last two statements of the \<open>try\<close> block of \<open>extractInvoice\<close>:
      \<open>Object.fromEntries(FIELDS.map(f => [f.key, parsed[f.key] || ""]))\<close> and
      \<open>Array.isArray(parsed.lineItems) ? parsed.lineItems : []\<close>; reading a property of
      \<open>null\<close> throws\<close>
  "coerce parsed =
     (case parsed of
        JNull \<Rightarrow> Inl (TypeError (js ''invoiceNo''))
      | _ \<Rightarrow>
          Inr \<lparr>form = map (\<lambda>k. (k, orElse (getOwn parsed k) (JStr []))) FIELDS,
               lineItems = (case getOwn parsed (js ''lineItems'') of
                              Some (JArr xs) \<Rightarrow> xs
                            | _ \<Rightarrow> [])\<rparr>)"

definition contentText :: "engine \<Rightarrow> json \<Rightarrow> error + jsstring" where
  \<comment> \<open>\<open>data.content.map(c => c.text || "").join("")\<close>: only an array has \<open>map\<close>, and
      \<open>c.text\<close> throws on an element that is \<open>null\<close>\<close>
  "contentText eng c =
     (case c of
        JArr cs \<Rightarrow>
          if JNull \<in> set cs then Inl (TypeError (js ''text''))
          else Inr (concat (map (\<lambda>x. toString eng (orElse (getOwn x (js ''text'')) (JStr []))) cs))
      | _ \<Rightarrow> Inl (TypeError (js ''map'')))"

definition readContent :: "engine \<Rightarrow> json \<Rightarrow> error + invoice" where
  \<comment> \<open>the \<open>try\<close> block from \<open>if (!data.content?.length)\<close> on\<close>
  "readContent eng data =
     (case getOwn data (js ''content'') of
        None \<Rightarrow> Inl (Error (js ''Empty response from API''))
      | Some c \<Rightarrow>
          if \<not> truthy (optProp (Some c) (js ''length''))
          then Inl (Error (js ''Empty response from API''))
          else
            (case contentText eng c of
               Inl e \<Rightarrow> Inl e
             | Inr raw \<Rightarrow>
                 (case extractJSON raw of
                    Inl e \<Rightarrow> Inl e
                  | Inr parsed \<Rightarrow> coerce parsed)))"

definition readError :: "engine \<Rightarrow> nat \<Rightarrow> jsstring \<Rightarrow> error" where
  \<comment> \<open>the branch \<open>if (!res.ok)\<close>, which always throws\<close>
  "readError eng st rawText =
     (let pe =
            (case JSON_parse rawText of
               Inl e \<Rightarrow> e
             | Inr e \<Rightarrow>
                 (case getProp (Some e) (js ''error'') of
                    Inl te \<Rightarrow> te
                  | Inr v \<Rightarrow>
                      Error (toString eng
                               (orElse v (orElse (getOwn e (js ''message''))
                                                 (JStr (js ''Server error '' @ showNat st)))))))
      in if message eng pe \<noteq> [] \<and> \<not> isPrefixOf (js ''Unexpected'') (message eng pe) then pe
         else Error (js ''Server error '' @ showNat st @ js '': '' @ take 200 rawText))"

definition readResponse :: "engine \<Rightarrow> nat \<Rightarrow> jsstring \<Rightarrow> error + invoice" where
  \<comment> \<open>the \<open>try\<close> block from \<open>if (!res.ok)\<close> on\<close>
  "readResponse eng st rawText =
     (if \<not> ok st then Inl (readError eng st rawText)
      else
        (case JSON_parse rawText of
           Inl e \<Rightarrow> Inl e
         | Inr data \<Rightarrow>
             (case getProp (Some data) (js ''error'') of
                Inl e \<Rightarrow> Inl e
              | Inr None \<Rightarrow> readContent eng data
              | Inr (Some err) \<Rightarrow>
                  if truthy (Some err)
                  then Inl (Error (toString eng (orElse (optProp (Some err) (js ''message''))
                                                        (JStr (stringify eng err)))))
                  else readContent eng data)))"

definition surface :: "engine \<Rightarrow> jsstring \<Rightarrow> error \<Rightarrow> error" where
  \<comment> \<open>the \<open>catch\<close> block\<close>
  "surface eng rawText err =
     (if rawText \<noteq> [] \<and> \<not> includesStr (message eng err) (take 20 rawText)
      then Error (message eng err @ [10, 10] @ js ''Raw: '' @ take 200 rawText)
      else err)"

text \<open>
  \<open>fetch("/api/extract", ...)\<close> is a parameter: \<open>FetchThrew m\<close> when the request or the
  reading of its body rejects with the message \<open>m\<close>, \<open>Fetched status text\<close> otherwise.
  The trace records the two effects of \<open>extractInvoice\<close> in their order: the drawing and
  encoding of the document, and the request.
\<close>

datatype fetched = FetchThrew jsstring | Fetched nat jsstring

definition rasterize ::
  "(upload \<Rightarrow> error + canvas) \<Rightarrow> (upload \<Rightarrow> error + canvas) \<Rightarrow> encoder \<Rightarrow> upload \<Rightarrow>
   error + rasterImage" where
  \<comment> \<open>the first two statements of \<open>extractInvoice\<close>\<close>
  "rasterize loadImage renderPdf enc f =
     (if normalizeMime f = js ''application/pdf''
      then pdfToImageBase64 renderPdf enc f
      else compressImage loadImage enc f)"

definition extractInvoice ::
  "engine \<Rightarrow> (upload \<Rightarrow> error + canvas) \<Rightarrow> (upload \<Rightarrow> error + canvas) \<Rightarrow> encoder \<Rightarrow>
   (reqBody \<Rightarrow> fetched) \<Rightarrow> upload \<Rightarrow> event list \<times> (error + invoice)" where
  "extractInvoice eng loadImage renderPdf enc post f =
     (case rasterize loadImage renderPdf enc f of
        Inl e \<Rightarrow> ([Rasterize f], Inl e)
      | Inr img \<Rightarrow>
          (let b = \<lparr>imageBase64 = base64 img, bodyMediaType = mediaType img,
                    prompt = EXTRACTION_PROMPT\<rparr>
           in ([Rasterize f, Post b],
               case post b of
                 FetchThrew m \<Rightarrow> Inl (Error m)
               | Fetched st rawText \<Rightarrow>
                   (case readResponse eng st rawText of
                      Inl err \<Rightarrow> Inl (surface eng rawText err)
                    | Inr r \<Rightarrow> Inr r))))"

definition viaHandler :: "engine \<Rightarrow> env \<Rightarrow> reply \<Rightarrow> reply \<Rightarrow> reqBody \<Rightarrow> fetched" where
  \<comment> \<open>the request of \<open>extractInvoice\<close> answered by \<open>handler\<close>: a POST whose parsed body is
      the object sent, answered by \<open>res.status(...).json(...)\<close>\<close>
  "viaHandler eng env anthropicReply geminiReply b =
     (case handler eng env \<lparr>httpMethod = js ''POST'', payload = Some b\<rparr> anthropicReply geminiReply of
        (evs, r) \<Rightarrow> Fetched (status r) (stringify eng (body r)))"

section \<open>Concrete inputs\<close>

text \<open>
  The inputs at which the theorems below are evaluated: an engine that prints integers,
  environments, a request, provider replies, and a file with its decoder and encoder.
\<close>

definition sampleEngine :: engine where
  "sampleEngine =
     \<lparr>numberToString = (\<lambda>q. (if q < 0 then [45] else []) @ showNat (nat \<lfloor>\<bar>q\<bar>\<rfloor>)),
      syntaxErrorMessage = (\<lambda>t. js ''Unexpected token''),
      typeErrorMessage = (\<lambda>p. js ''Cannot read properties of null'')\<rparr>"

definition twoParts :: json where
  \<open>twoParts =
     JObj [(js ''candidates'',
            JArr [JObj [(js ''content'',
                         JObj [(js ''parts'',
                                JArr [JObj [(js ''text'', JStr (js ''{"invoiceNo":''))],
                                      JObj [(js ''text'', JStr (js ''"A1"}''))]])])]])]\<close>

definition bothKeys :: env where
  "bothKeys = \<lparr>ANTHROPIC_API_KEY = Some (js ''sk-ant-1''), GEMINI_API_KEY = Some (js ''AIza-2'')\<rparr>"

definition sampleRequest :: request where
  "sampleRequest =
     \<lparr>httpMethod = js ''POST'',
      payload = Some \<lparr>imageBase64 = js ''AAAA'', bodyMediaType = js ''image/jpeg'',
                      prompt = js ''Extract''\<rparr>\<rparr>"

definition failure :: "jsstring \<Rightarrow> json" where
  \<comment> \<open>the error body \<open>{"error":{"message":m}}\<close> of a provider\<close>
  "failure m = JObj [(js ''error'', JObj [(js ''message'', JStr m)])]"

definition geminiOnly :: env where
  "geminiOnly = \<lparr>ANTHROPIC_API_KEY = None, GEMINI_API_KEY = Some (js ''AIza-2'')\<rparr>"

definition noKeys :: env where
  "noKeys = \<lparr>ANTHROPIC_API_KEY = None, GEMINI_API_KEY = None\<rparr>"

definition onePart :: json where
  \<open>onePart =
     JObj [(js ''candidates'',
            JArr [JObj [(js ''content'',
                         JObj [(js ''parts'',
                                JArr [JObj [(js ''text'', JStr (js ''{"invoiceNo":"A1"}''))]])])]])]\<close>

definition samplePng :: upload where
  "samplePng = \<lparr>ftype = js ''image/png'', fname = js ''scan.png'', fbytes = [137, 80, 78, 71]\<rparr>"

definition sampleLoad :: "upload \<Rightarrow> error + canvas" where
  "sampleLoad f = Inr \<lparr>width = 4, height = 3, pixels = []\<rparr>"

definition sampleEncoder :: encoder where
  "sampleEncoder c nw nh q = js ''AAAA''"

section \<open>Evaluation on concrete inputs\<close>

lemmas double_eval = toDouble_def exponentOf_def pow2_def roundEven_def bitLength.simps Let_def
  round_def

lemma resizeDims_4_3: "resizeDims 4 3 2000 900 = (4, 3)"
proof -
  have s: "resizeScale 4 3 2000 900 = 1"
    by (simp add: resizeScale_def double_eval)
  show ?thesis
    unfolding resizeDims_def s
    apply simp
    apply (simp add: double_eval)
    done
qed

text \<open>
  Two canvases whose exact height would end in a half: the rounded scale is a little
  below the exact quotient, and the height is rounded down, as the browser does.
\<close>

lemma resizeDims_672_756: "resizeDims 672 756 2000 900 = (900, 1012)"
proof -
  have s: "resizeScale 672 756 2000 900 = 6031606643799771 / 4503599627370496"
    by (simp add: resizeScale_def double_eval)
  show ?thesis
    unfolding resizeDims_def s
    apply simp
    apply (simp add: double_eval)
    done
qed

lemma resizeDims_2432_1140: "resizeDims 2432 1140 2000 900 = (2000, 937)"
proof -
  have s: "resizeScale 2432 1140 2000 900 = 7407236229227789 / 9007199254740992"
    by (simp add: resizeScale_def double_eval)
  show ?thesis
    unfolding resizeDims_def s
    apply simp
    apply (simp add: double_eval)
    done
qed

lemma replicate_numeral: "replicate (numeral k) x = x # replicate (pred_numeral k) x"
  by (simp add: numeral_eq_Suc)

lemmas parse_numeral =
  parseValue.simps(2,3) [where n = "pred_numeral k", unfolded numeral_eq_Suc [symmetric]]
  parseElements.simps(2) [where n = "pred_numeral k", unfolded numeral_eq_Suc [symmetric]]
  parseMembers.simps(2) [where n = "pred_numeral k", unfolded numeral_eq_Suc [symmetric]]
  for k

lemmas lex_eval = parse_numeral lexJson.simps nextToken_def isJsonSpace_def isDigit_def lexNumber_def lexInt_def
  lexFrac_def lexExp_def digitsVal_def unescape_def hex4_def hexVal_def

lemmas extract_eval = extractJSON_def candidate_def repair_def countUnit_def tailPattern_def
  isFence_def isJsonFence_def isSpace_def trim_def toLowerUnit_def replicate_numeral JSON_parse_def

lemmas js_eval = optPath_def optProp_def getProp_def orElse_def indexOfKey_def isDigit_def
  digitsVal_def geminiText_def geminiReason_def textContent_def upstreamMessage_def ok_def

lemmas handler_eval = handler_def handler_api_def callAnthropic_def callGemini_def
  callAnthropic_api_def callGemini_api_def present_def approxKB_def errorBody_def resultBody_def
  showNat.simps Let_def

lemma handler_both_fail:
  assumes "httpMethod req = js ''POST''" and "payload req = Some b"
    and "imageBase64 b \<noteq> []" and "bodyMediaType b \<noteq> []" and "prompt b \<noteq> []"
    and "approxKB (imageBase64 b) \<le> 5120"
    and "present (ANTHROPIC_API_KEY env)" and "present (GEMINI_API_KEY env)"
    and "callAnthropic eng a = Inl e1" and "callGemini eng g = Inl e2"
  shows "snd (handler eng env req a g) =
           \<lparr>status = 502,
            body = errorBody (js ''Both providers failed.'' @ [10] @ js ''Anthropic: '' @ message eng e1
                              @ [10] @ js ''Gemini: '' @ message eng e2)\<rparr>"
  using assms by (simp add: handler_def Let_def)

lemma callGemini_provider: "callGemini eng g = Inr r \<Longrightarrow> provider r = js ''gemini''"
  by (auto simp: callGemini_def Let_def split: reply.splits if_splits)

lemma noKey_wire:
  \<open>stringify eng (errorBody noKeyMessage) = js ''{"error":"'' @ noKeyMessage @ js ''"}''\<close>
  by (simp add: errorBody_def noKeyMessage_def ownMembers_def indexOfKey_def isDigit_def quote_def
                isHighSurrogate_def isLowSurrogate_def)

lemma noKey_parse:
  \<open>JSON_parse (js ''{"error":"'' @ noKeyMessage @ js ''"}'') = Inr (errorBody noKeyMessage)\<close>
  by (simp add: errorBody_def noKeyMessage_def JSON_parse_def lex_eval)

lemma noKey_readError:
  \<open>readError eng 500 (js ''{"error":"'' @ noKeyMessage @ js ''"}'') = Error noKeyMessage\<close>
  unfolding readError_def noKey_parse
  by (simp add: errorBody_def getProp_def orElse_def noKeyMessage_def)

lemma noKey_surface:
  \<open>surface eng (js ''{"error":"'' @ noKeyMessage @ js ''"}'') (Error noKeyMessage) =
     Error (noKeyMessage @ [10, 10] @ js ''Raw: {"error":"'' @ noKeyMessage @ js ''"}'')\<close>
  by (simp add: surface_def noKeyMessage_def)

section \<open>Fences, trimming and the brace scan\<close>


















section \<open>Claims\<close>

text \<open>
  C1. The text \<open>{"invoiceNo":"A1","lineItems":[{"description":"x","qty":"1"\<close> has no
  balanced close, so \<open>extractJSON\<close> repairs it: the pattern removes \<open>,"qty":"1"\<close>, and
  one \<open>]\<close> and two \<open>}\<close> are appended, the bracket first. The inner object is still open
  when the bracket closes the array, and \<open>JSON.parse\<close> rejects the repaired text.
\<close>

theorem repair_example_rejected:
  \<open>candidate (js ''{"invoiceNo":"A1","lineItems":[{"description":"x","qty":"1"'') =
     Inr (js ''{"invoiceNo":"A1","lineItems":[{"description":"x"]}}'') \<and>
   extractJSON (js ''{"invoiceNo":"A1","lineItems":[{"description":"x","qty":"1"'') =
     Inl (SyntaxError (js ''{"invoiceNo":"A1","lineItems":[{"description":"x"]}}''))\<close>
  by (simp add: extract_eval lex_eval)




text \<open>
  C3, as stated: a field whose parsed value is the number 0 or \<open>false\<close>, neither
  absent nor null nor the empty string, is replaced by \<open>""\<close>.
\<close>

theorem coerce_number_zero:
  "coerce (JObj [(js ''taxAmount'', JNum 0), (js ''poNumber'', JBool False)]) =
     Inr \<lparr>form = map (\<lambda>k. (k, JStr [])) FIELDS, lineItems = []\<rparr> \<and>
   getOwn (JObj [(js ''taxAmount'', JNum 0), (js ''poNumber'', JBool False)]) (js ''taxAmount'') =
     Some (JNum 0) \<and>
   JNum 0 \<noteq> JStr [] \<and> JNum 0 \<noteq> JNull"
  by (simp add: coerce_def orElse_def FIELDS_def isZero_def)

text \<open>
  C3, amended. On every parsed object \<open>coerce\<close> returns a record and does not throw.
  The form has exactly the keys of \<open>FIELDS\<close>, in their order; each holds the parsed
  object's value when that value is truthy (not absent, \<open>null\<close>, \<open>false\<close>, a zero or
  \<open>""\<close>) and \<open>""\<close> otherwise, so none is null; \<open>lineItems\<close> is the parsed
  \<open>lineItems\<close> when that is an array and the empty sequence otherwise.
\<close>

theorem coerce_total:
  "case coerce (JObj ms) of
     Inl e \<Rightarrow> False
   | Inr r \<Rightarrow>
       map fst (form r) = FIELDS \<and>
       (\<forall>k \<in> set FIELDS.
          map_of (form r) k =
            (if truthy (map_of ms k) then map_of ms k else Some (JStr []))) \<and>
       (\<forall>(k, v) \<in> set (form r). v \<noteq> JNull) \<and>
       lineItems r = (case map_of ms (js ''lineItems'') of Some (JArr xs) \<Rightarrow> xs | _ \<Rightarrow> [])"
proof -
  let ?f = "\<lambda>k. (k, orElse (map_of ms k) (JStr []))"
  have c: "coerce (JObj ms) =
             Inr \<lparr>form = map ?f FIELDS,
                  lineItems = (case map_of ms (js ''lineItems'') of Some (JArr xs) \<Rightarrow> xs | _ \<Rightarrow> [])\<rparr>"
    by (simp add: coerce_def)
  have 1: "map fst (map ?f FIELDS) = FIELDS" by (simp add: comp_def)
  have d: "distinct FIELDS" by (simp add: FIELDS_def)
  have 2: "map_of (map ?f FIELDS) k = (if truthy (map_of ms k) then map_of ms k else Some (JStr []))"
    if "k \<in> set FIELDS" for k
  proof -
    have "map_of (map ?f FIELDS) k = Some (orElse (map_of ms k) (JStr []))"
      using that by (simp add: map_of_map_restrict)
    then show ?thesis by (cases "map_of ms k") (auto simp: orElse_def)
  qed
  have 3: "orElse a (JStr []) \<noteq> JNull" for a
    by (cases a) (auto simp: orElse_def)
  show ?thesis
    unfolding c using 1 2 3 by (auto simp del: map_map)
qed

theorem coerce_total_witness:
  "coerce (JObj []) =
     Inr \<lparr>form = map (\<lambda>k. (k, JStr [])) FIELDS, lineItems = []\<rparr> \<and>
   map fst (map (\<lambda>k. (k, JStr [])) FIELDS) = FIELDS \<and>
   map_of (map (\<lambda>k. (k, JStr [])) FIELDS) (js ''amount'') = Some (JStr [])"
proof -
  have a: "js ''amount'' \<in> set FIELDS" by (simp add: FIELDS_def)
  have c: "coerce (JObj []) = Inr \<lparr>form = map (\<lambda>k. (k, JStr [])) FIELDS, lineItems = []\<rparr>"
    by (simp add: coerce_def orElse_def)
  show ?thesis
    using coerce_total [of "[]"] a unfolding c by (auto simp: comp_def)
qed

text \<open>
  C4. Both keys configured and both providers failing (HTTP 529 and HTTP 503). The
  handler of src/api/extract.js answers 502 with the failure of Gemini alone; the failure
  of Anthropic goes to the console only. The handler of src/extract.js, at the same input,
  lists both failures in the order of the attempts.
\<close>

theorem both_fail_api_drops_first:
  "handler_api sampleEngine bothKeys sampleRequest
     (Reply 529 (failure (js ''Overloaded''))) (Reply 503 (failure (js ''unavailable''))) =
     ([Console (js ''[extract] trying Anthropic, size=0KB''), Call Anthropic,
       Console (js ''[extract] Anthropic failed: Anthropic HTTP 529: Overloaded''),
       Console (js ''[extract] Falling back to Gemini...''),
       Console (js ''[extract] trying Gemini, size=0KB''), Call Gemini,
       Console (js ''[extract] Gemini failed: Gemini HTTP 503: unavailable'')],
      \<lparr>status = 502, body = errorBody (js ''Gemini failed: Gemini HTTP 503: unavailable'')\<rparr>) \<and>
   handler sampleEngine bothKeys sampleRequest
     (Reply 529 (failure (js ''Overloaded''))) (Reply 503 (failure (js ''unavailable''))) =
     ([Console (js ''[extract] provider=anthropic size=0KB''), Call Anthropic,
       Console (js ''[extract] primary error: Anthropic 529: Overloaded''),
       Console (js ''[extract] Anthropic failed '' @ [8212] @ js '' trying Gemini fallback''),
       Call Gemini,
       Console (js ''[extract] Gemini fallback failed: Gemini 503: unavailable'')],
      \<lparr>status = 502,
       body = errorBody (js ''Both providers failed.'' @ [10] @ js ''Anthropic: Anthropic 529: Overloaded''
                         @ [10] @ js ''Gemini: Gemini 503: unavailable'')\<rparr>)"
  by (simp add: handler_eval js_eval bothKeys_def sampleRequest_def failure_def sampleEngine_def)

text \<open>
  C5, as stated: when Anthropic fails (HTTP 529) and Gemini succeeds, the value returned
  has the three members \<open>provider\<close>, \<open>content\<close> and \<open>usedFallback\<close>; none of them
  is a list of attempts, and the failure's message occurs nowhere in the response.
\<close>

theorem fallback_no_attempt_list:
  \<open>handler sampleEngine bothKeys sampleRequest (Reply 529 (failure (js ''Overloaded''))) (Reply 200 onePart) =
     ([Console (js ''[extract] provider=anthropic size=0KB''), Call Anthropic,
       Console (js ''[extract] primary error: Anthropic 529: Overloaded''),
       Console (js ''[extract] Anthropic failed '' @ [8212] @ js '' trying Gemini fallback''),
       Call Gemini],
      \<lparr>status = 200,
       body = JObj [(js ''provider'', JStr (js ''gemini'')),
                    (js ''content'', textContent (JStr (js ''{"invoiceNo":"A1"}''))),
                    (js ''usedFallback'', JBool True)]\<rparr>) \<and>
   \<not> includesStr
       (stringify sampleEngine
          (body (snd (handler sampleEngine bothKeys sampleRequest
                        (Reply 529 (failure (js ''Overloaded''))) (Reply 200 onePart)))))
       (js ''Overloaded'')\<close>
  by (simp add: handler_eval js_eval bothKeys_def sampleRequest_def failure_def sampleEngine_def
                onePart_def ownMembers_def quote_def isHighSurrogate_def isLowSurrogate_def)

text \<open>
  C5, amended. For a request that passes the checks of the handler of src/extract.js,
  with the Gemini key configured: if the Anthropic key is configured too, Anthropic fails
  and Gemini succeeds, the handler calls Anthropic, then Gemini, and answers 200 with
  Gemini's content tagged \<open>provider: "gemini"\<close> and \<open>usedFallback: true\<close>; the one
  failure is written to the console and is not part of the response. If the Anthropic key
  is not configured, Anthropic is never called, Gemini is the first call, and its result
  is returned tagged \<open>provider: "gemini"\<close>.
\<close>

theorem fallback_result:
  assumes "httpMethod req = js ''POST''" and "payload req = Some b"
    and "imageBase64 b \<noteq> []" and "bodyMediaType b \<noteq> []" and "prompt b \<noteq> []"
    and "approxKB (imageBase64 b) \<le> 5120"
    and "present (GEMINI_API_KEY env)"
  shows "(present (ANTHROPIC_API_KEY env) \<and> callAnthropic eng a = Inl e \<and> callGemini eng g = Inr r \<longrightarrow>
            handler eng env req a g =
              ([Console (js ''[extract] provider=anthropic size='' @ showNat (approxKB (imageBase64 b))
                         @ js ''KB''),
                Call Anthropic,
                Console (js ''[extract] primary error: '' @ message eng e),
                Console (js ''[extract] Anthropic failed '' @ [8212] @ js '' trying Gemini fallback''),
                Call Gemini],
               \<lparr>status = 200,
                body = JObj [(js ''provider'', JStr (js ''gemini'')), (js ''content'', content r),
                             (js ''usedFallback'', JBool True)]\<rparr>)) \<and>
         (\<not> present (ANTHROPIC_API_KEY env) \<longrightarrow>
            Call Anthropic \<notin> set (fst (handler eng env req a g)) \<and>
            take 2 (fst (handler eng env req a g)) =
              [Console (js ''[extract] provider=gemini size='' @ showNat (approxKB (imageBase64 b))
                        @ js ''KB''),
               Call Gemini] \<and>
            (callGemini eng g = Inr r \<longrightarrow>
               snd (handler eng env req a g) =
                 \<lparr>status = 200,
                  body = JObj [(js ''provider'', JStr (js ''gemini'')), (js ''content'', content r)]\<rparr>))"
proof (intro conjI impI)
  assume h: "present (ANTHROPIC_API_KEY env) \<and> callAnthropic eng a = Inl e \<and> callGemini eng g = Inr r"
  then have "provider r = js ''gemini''" using callGemini_provider by blast
  with h assms show "handler eng env req a g =
              ([Console (js ''[extract] provider=anthropic size='' @ showNat (approxKB (imageBase64 b))
                         @ js ''KB''),
                Call Anthropic,
                Console (js ''[extract] primary error: '' @ message eng e),
                Console (js ''[extract] Anthropic failed '' @ [8212] @ js '' trying Gemini fallback''),
                Call Gemini],
               \<lparr>status = 200,
                body = JObj [(js ''provider'', JStr (js ''gemini'')), (js ''content'', content r),
                             (js ''usedFallback'', JBool True)]\<rparr>)"
    by (simp add: handler_def Let_def)
next
  assume n: "\<not> present (ANTHROPIC_API_KEY env)"
  with assms show "Call Anthropic \<notin> set (fst (handler eng env req a g))"
    by (simp add: handler_def Let_def split: sum.splits)
  from n assms show "take 2 (fst (handler eng env req a g)) =
              [Console (js ''[extract] provider=gemini size='' @ showNat (approxKB (imageBase64 b))
                        @ js ''KB''),
               Call Gemini]"
    by (simp add: handler_def Let_def split: sum.splits)
  assume g: "callGemini eng g = Inr r"
  then have "provider r = js ''gemini''" using callGemini_provider by blast
  with n g assms show "snd (handler eng env req a g) =
                 \<lparr>status = 200,
                  body = JObj [(js ''provider'', JStr (js ''gemini'')), (js ''content'', content r)]\<rparr>"
    by (simp add: handler_def Let_def resultBody_def)
qed

theorem fallback_result_witness:
  \<open>handler sampleEngine bothKeys sampleRequest (Reply 529 (failure (js ''Overloaded''))) (Reply 200 onePart) =
     ([Console (js ''[extract] provider=anthropic size=0KB''), Call Anthropic,
       Console (js ''[extract] primary error: Anthropic 529: Overloaded''),
       Console (js ''[extract] Anthropic failed '' @ [8212] @ js '' trying Gemini fallback''),
       Call Gemini],
      \<lparr>status = 200,
       body = JObj [(js ''provider'', JStr (js ''gemini'')),
                    (js ''content'', textContent (JStr (js ''{"invoiceNo":"A1"}''))),
                    (js ''usedFallback'', JBool True)]\<rparr>) \<and>
   Call Anthropic \<notin> set (fst (handler sampleEngine geminiOnly sampleRequest
                                  (Reply 529 (failure (js ''Overloaded''))) (Reply 200 onePart))) \<and>
   snd (handler sampleEngine geminiOnly sampleRequest
          (Reply 529 (failure (js ''Overloaded''))) (Reply 200 onePart)) =
     \<lparr>status = 200,
      body = JObj [(js ''provider'', JStr (js ''gemini'')),
                   (js ''content'', textContent (JStr (js ''{"invoiceNo":"A1"}'')))]\<rparr>\<close>
proof -
  let ?b = "\<lparr>imageBase64 = js ''AAAA'', bodyMediaType = js ''image/jpeg'', prompt = js ''Extract''\<rparr>"
  let ?a = "Reply 529 (failure (js ''Overloaded''))"
  let ?g = "Reply 200 onePart"
  let ?r = \<open>\<lparr>provider = js ''gemini'', content = textContent (JStr (js ''{"invoiceNo":"A1"}''))\<rparr>\<close>
  have req: "httpMethod sampleRequest = js ''POST''" "payload sampleRequest = Some ?b"
    "imageBase64 ?b \<noteq> []" "bodyMediaType ?b \<noteq> []" "prompt ?b \<noteq> []"
    "approxKB (imageBase64 ?b) \<le> 5120"
    by (simp_all add: sampleRequest_def approxKB_def)
  have k1: "present (GEMINI_API_KEY bothKeys)" "present (ANTHROPIC_API_KEY bothKeys)"
    by (simp_all add: bothKeys_def present_def)
  have k2: "present (GEMINI_API_KEY geminiOnly)" "\<not> present (ANTHROPIC_API_KEY geminiOnly)"
    by (simp_all add: geminiOnly_def present_def)
  have ca: "callAnthropic sampleEngine ?a = Inl (Error (js ''Anthropic 529: Overloaded''))"
    by (simp add: callAnthropic_def failure_def js_eval showNat.simps sampleEngine_def)
  have cg: "callGemini sampleEngine ?g = Inr ?r"
    by (simp add: callGemini_def onePart_def js_eval)
  have sz: "showNat (approxKB (js ''AAAA'')) = js ''0''"
    by (simp add: approxKB_def showNat.simps)
  show ?thesis
    using fallback_result [OF req k1(1), of sampleEngine ?a "Error (js ''Anthropic 529: Overloaded'')" ?g ?r]
          fallback_result [OF req k2(1), of sampleEngine ?a "Error (js ''Anthropic 529: Overloaded'')" ?g ?r]
          k1 k2 ca cg sz
    by simp
qed

text \<open>
  C6. A portrait canvas narrower than the minimum width is enlarged: at 100 by 200 with
  the first pass's cap 2000 and floor 900, the scale \<open>Math.min(2000 / 200, 1) = 1\<close> gives a
  width below 900 and is replaced by \<open>900 / 100 = 9\<close>, so the canvas that is encoded is 900
  by 1800, and its long edge 1800 exceeds the 200 of the input.
\<close>

theorem portrait_upscaled:
  "resizeDims 100 200 2000 900 = (900, 1800) \<and>
   smartResize enc \<lparr>width = 100, height = 200, pixels = px\<rparr> 2000 900 q =
     enc \<lparr>width = 100, height = 200, pixels = px\<rparr> 900 1800 q"
proof -
  have s: "resizeScale 100 200 2000 900 = 9"
    by (simp add: resizeScale_def double_eval)
  have d: "resizeDims 100 200 2000 900 = (900, 1800)"
    unfolding resizeDims_def s
    apply simp
    apply (simp add: double_eval)
    done
  show ?thesis by (simp add: smartResize_def d)
qed

text \<open>
  C7, as stated: with no key configured, \<open>extractInvoice\<close> on a PNG first draws and
  encodes the image, then sends the request, and only the answer to that request is the
  failure "No API key configured".
\<close>

theorem no_key_rasterizes_first:
  \<open>extractInvoice sampleEngine sampleLoad sampleLoad sampleEncoder
       (viaHandler sampleEngine noKeys (Threw []) (Threw [])) samplePng =
     ([Rasterize samplePng,
       Post \<lparr>imageBase64 = js ''AAAA'', bodyMediaType = js ''image/jpeg'', prompt = EXTRACTION_PROMPT\<rparr>],
      Inl (Error (noKeyMessage @ [10, 10] @ js ''Raw: {"error":"'' @ noKeyMessage @ js ''"}'')))\<close>
proof -
  have r: "rasterize sampleLoad sampleLoad sampleEncoder samplePng =
             Inr \<lparr>base64 = js ''AAAA'', mediaType = js ''image/jpeg''\<rparr>"
    by (simp add: rasterize_def normalizeMime_def toLowerCase_def toLowerUnit_def lastSegment_def
                  samplePng_def compressImage_def sampleLoad_def smartResize_def resizeDims_4_3
                  sampleEncoder_def overBudget_def)
  have v: \<open>viaHandler sampleEngine noKeys (Threw []) (Threw []) b =
             Fetched 500 (js ''{"error":"'' @ noKeyMessage @ js ''"}'')\<close> for b
    using noKey_wire [of sampleEngine]
    by (simp add: viaHandler_def handler_def noKeys_def present_def)
  have rr: \<open>readResponse sampleEngine 500 (js ''{"error":"'' @ noKeyMessage @ js ''"}'') =
              Inl (Error noKeyMessage)\<close>
    unfolding readResponse_def noKey_readError by (simp add: ok_def)
  show ?thesis
    unfolding extractInvoice_def r Let_def v
    using rr noKey_surface [of sampleEngine] by simp
qed

text \<open>
  C7, amended. With no key configured, the handler answers every POST with 500 and
  "No API key configured ...", before it reads the body and without calling a provider.
  In \<open>extractInvoice\<close> the document is rasterized before the request is sent: when the
  rasterization fails, no request is sent and its error is the result; when it succeeds,
  the request carries its image, and the result is the handler's message followed by the
  raw response.
\<close>

theorem no_key_after_rasterization:
  assumes "\<not> present (ANTHROPIC_API_KEY env)" and "\<not> present (GEMINI_API_KEY env)"
  shows
    \<open>handler eng env \<lparr>httpMethod = js ''POST'', payload = p\<rparr> a g =
        ([], \<lparr>status = 500, body = errorBody noKeyMessage\<rparr>) \<and>
      (rasterize loadImage renderPdf enc f = Inl e \<longrightarrow>
         extractInvoice eng loadImage renderPdf enc (viaHandler eng env a g) f =
           ([Rasterize f], Inl e)) \<and>
      (rasterize loadImage renderPdf enc f = Inr img \<longrightarrow>
         extractInvoice eng loadImage renderPdf enc (viaHandler eng env a g) f =
           ([Rasterize f,
             Post \<lparr>imageBase64 = base64 img, bodyMediaType = mediaType img,
                   prompt = EXTRACTION_PROMPT\<rparr>],
            Inl (Error (noKeyMessage @ [10, 10] @ js ''Raw: {"error":"'' @ noKeyMessage
                        @ js ''"}''))))\<close>
proof (intro conjI impI)
  show h: "\<And>p. handler eng env \<lparr>httpMethod = js ''POST'', payload = p\<rparr> a g =
        ([], \<lparr>status = 500, body = errorBody noKeyMessage\<rparr>)"
    using assms by (simp add: handler_def)
  show "extractInvoice eng loadImage renderPdf enc (viaHandler eng env a g) f = ([Rasterize f], Inl e)"
    if "rasterize loadImage renderPdf enc f = Inl e"
    using that by (simp add: extractInvoice_def)
  show \<open>extractInvoice eng loadImage renderPdf enc (viaHandler eng env a g) f =
           ([Rasterize f,
             Post \<lparr>imageBase64 = base64 img, bodyMediaType = mediaType img,
                   prompt = EXTRACTION_PROMPT\<rparr>],
            Inl (Error (noKeyMessage @ [10, 10] @ js ''Raw: {"error":"'' @ noKeyMessage
                        @ js ''"}'')))\<close>
    if r: "rasterize loadImage renderPdf enc f = Inr img"
  proof -
    have v: \<open>viaHandler eng env a g b = Fetched 500 (js ''{"error":"'' @ noKeyMessage @ js ''"}'')\<close> for b
      using noKey_wire [of eng] h [of "Some b"] by (simp add: viaHandler_def)
    have rr: \<open>readResponse eng 500 (js ''{"error":"'' @ noKeyMessage @ js ''"}'') = Inl (Error noKeyMessage)\<close>
      unfolding readResponse_def noKey_readError by (simp add: ok_def)
    show ?thesis
      unfolding extractInvoice_def r Let_def v
      using rr noKey_surface [of eng] by simp
  qed
qed

theorem no_key_after_rasterization_witness:
  \<open>handler sampleEngine noKeys \<lparr>httpMethod = js ''POST'', payload = None\<rparr> (Threw []) (Threw []) =
     ([], \<lparr>status = 500, body = errorBody noKeyMessage\<rparr>) \<and>
   extractInvoice sampleEngine sampleLoad sampleLoad sampleEncoder
       (viaHandler sampleEngine noKeys (Threw []) (Threw [])) samplePng =
     ([Rasterize samplePng,
       Post \<lparr>imageBase64 = js ''AAAA'', bodyMediaType = js ''image/jpeg'', prompt = EXTRACTION_PROMPT\<rparr>],
      Inl (Error (noKeyMessage @ [10, 10] @ js ''Raw: {"error":"'' @ noKeyMessage @ js ''"}'')))\<close>
proof -
  have k: "\<not> present (ANTHROPIC_API_KEY noKeys)" "\<not> present (GEMINI_API_KEY noKeys)"
    by (simp_all add: noKeys_def present_def)
  have r: "rasterize sampleLoad sampleLoad sampleEncoder samplePng =
             Inr \<lparr>base64 = js ''AAAA'', mediaType = js ''image/jpeg''\<rparr>"
    by (simp add: rasterize_def normalizeMime_def toLowerCase_def toLowerUnit_def lastSegment_def
                  samplePng_def compressImage_def sampleLoad_def smartResize_def resizeDims_4_3
                  sampleEncoder_def overBudget_def)
  show ?thesis
    using no_key_after_rasterization [OF k, of sampleEngine None "Threw []" "Threw []"
            sampleLoad sampleLoad sampleEncoder samplePng "Error []"
            "\<lparr>base64 = js ''AAAA'', mediaType = js ''image/jpeg''\<rparr>"] r
    by simp
qed




text \<open>
  C9. A Gemini response whose first candidate has two parts, \<open>{"invoiceNo":\<close> and
  \<open>"A1"}\<close>: both versions of \<open>callGemini\<close> keep the text of the first part only, and
  the text the browser then assembles from the content is that first part, not the
  concatenation of the two. (The browser's \<open>contentText\<close> does concatenate every segment
  of the content it receives.)
\<close>

theorem gemini_first_part_only:
  \<open>callGemini eng (Reply 200 twoParts) =
     Inr \<lparr>provider = js ''gemini'', content = textContent (JStr (js ''{"invoiceNo":''))\<rparr> \<and>
   callGemini_api eng (Reply 200 twoParts) =
     Inr \<lparr>provider = js ''gemini'', content = textContent (JStr (js ''{"invoiceNo":''))\<rparr> \<and>
   contentText eng (textContent (JStr (js ''{"invoiceNo":''))) = Inr (js ''{"invoiceNo":'') \<and>
   js ''{"invoiceNo":'' \<noteq> js ''{"invoiceNo":'' @ js ''"A1"}''\<close>
  by (simp add: callGemini_def callGemini_api_def twoParts_def contentText_def js_eval)

text \<open>
  C10. Both rasterizers, and so the rasterization step of \<open>extractInvoice\<close> for every
  file, whenever they produce an image, give it the media type \<open>image/jpeg\<close>, whatever
  the file, the decoded canvas and the encoder are.
\<close>

theorem raster_mediaType:
  "(compressImage loadImage enc f = Inr r \<longrightarrow> mediaType r = js ''image/jpeg'') \<and>
   (pdfToImageBase64 renderPdf enc f = Inr r \<longrightarrow> mediaType r = js ''image/jpeg'') \<and>
   (rasterize loadImage renderPdf enc f = Inr r \<longrightarrow> mediaType r = js ''image/jpeg'')"
  by (auto simp: rasterize_def compressImage_def pdfToImageBase64_def Let_def split: sum.splits)

theorem raster_mediaType_witness:
  "compressImage (\<lambda>f. Inr \<lparr>width = 4, height = 3, pixels = []\<rparr>) (\<lambda>c nw nh q. js ''AAAA'')
     \<lparr>ftype = js ''image/png'', fname = js ''a.png'', fbytes = []\<rparr>
     = Inr \<lparr>base64 = js ''AAAA'', mediaType = js ''image/jpeg''\<rparr> \<and>
   pdfToImageBase64 (\<lambda>f. Inr \<lparr>width = 4, height = 3, pixels = []\<rparr>) (\<lambda>c nw nh q. js ''AAAA'')
     \<lparr>ftype = js ''application/pdf'', fname = js ''a.pdf'', fbytes = []\<rparr>
     = Inr \<lparr>base64 = js ''AAAA'', mediaType = js ''image/jpeg''\<rparr> \<and>
   mediaType \<lparr>base64 = js ''AAAA'', mediaType = js ''image/jpeg''\<rparr> = js ''image/jpeg''"
proof -
  have h1: "compressImage (\<lambda>f. Inr \<lparr>width = 4, height = 3, pixels = []\<rparr>) (\<lambda>c nw nh q. js ''AAAA'')
     \<lparr>ftype = js ''image/png'', fname = js ''a.png'', fbytes = []\<rparr>
     = Inr \<lparr>base64 = js ''AAAA'', mediaType = js ''image/jpeg''\<rparr>"
    by (simp add: compressImage_def smartResize_def resizeDims_4_3 overBudget_def)
  have h2: "pdfToImageBase64 (\<lambda>f. Inr \<lparr>width = 4, height = 3, pixels = []\<rparr>) (\<lambda>c nw nh q. js ''AAAA'')
     \<lparr>ftype = js ''application/pdf'', fname = js ''a.pdf'', fbytes = []\<rparr>
     = Inr \<lparr>base64 = js ''AAAA'', mediaType = js ''image/jpeg''\<rparr>"
    by (simp add: pdfToImageBase64_def smartResize_def resizeDims_4_3 overBudget_def)
  show ?thesis
    using h1 h2 raster_mediaType [of "\<lambda>f. Inr \<lparr>width = 4, height = 3, pixels = []\<rparr>" "\<lambda>c nw nh q. js ''AAAA''"
        "\<lparr>ftype = js ''image/png'', fname = js ''a.png'', fbytes = []\<rparr>"
        "\<lparr>base64 = js ''AAAA'', mediaType = js ''image/jpeg''\<rparr>"]
    by simp
qed

end
